theory Spec2Isabelle
  imports Complex_Main "HOL-Library.Word" "HOL-Library.Log_Nat"
begin

unbundle bit_operations_syntax

section \<open>The checkpoint converter (converter.py)\<close>

text \<open>
  The converter reads tensor-parallel shards, merges them, encodes every tensor as
  float32, float16 or Q40 and writes the bytes at computed offsets of one output file.
  The model below follows \<^verbatim>\<open>src/converter/converter.py\<close> function by function.
  Every exception of the source is a value of \<open>error\<close>; a function that touches the
  output file returns the file it leaves behind, also when it raises.
\<close>

subsection \<open>Errors, bytes and the output file\<close>

datatype error =
    AssertionError
  | ConversionError
  | StructError
  | UnknownFloatType
  | UnknownLayer string
  | KeyError string
  | ValueError
  | IndexError
  | ZeroDivisionError
  | OverflowError
  | UnboundLocalError
  | InvalidVocabSize
  | OSError
  | RuntimeError

type_synonym byte = "8 word"

text \<open>
  The file opened with \<^verbatim>\<open>open(outputPath, 'wb')\<close>: a position and the log of the writes
  made so far, each with the offset it landed at. \<^verbatim>\<open>write\<close> puts the bytes at the
  position and advances it; \<^verbatim>\<open>seek\<close> refuses a negative offset.
\<close>

record outfile =
  fpos :: nat
  fwrites :: "(nat \<times> byte list) list"

definition file_write :: "outfile \<Rightarrow> byte list \<Rightarrow> outfile" where
  "file_write f bs = f\<lparr>fwrites := fwrites f @ [(fpos f, bs)], fpos := fpos f + length bs\<rparr>"

definition file_seek :: "outfile \<Rightarrow> int \<Rightarrow> (error \<times> outfile) + outfile" where
  "file_seek f p = (if p < 0 then Inl (OSError, f) else Inr (f\<lparr>fpos := nat p\<rparr>))"

definition written :: "outfile \<Rightarrow> nat" where
  "written f = sum_list (map (\<lambda>(off, bs). length bs) (fwrites f))"

text \<open>
  \<^verbatim>\<open>struct.pack\<close> without a byte-order prefix lays a value out in the host's order; the
  hosts the converter runs on are little-endian.
\<close>

definition le16 :: "16 word \<Rightarrow> byte list" where
  "le16 w = [ucast w, ucast (drop_bit 8 w)]"

definition le32 :: "32 word \<Rightarrow> byte list" where
  "le32 w = [ucast w, ucast (drop_bit 8 w), ucast (drop_bit 16 w), ucast (drop_bit 24 w)]"

text \<open>\<^verbatim>\<open>struct.pack('B', b)\<close> raises unless \<open>0 \<le> b \<le> 255\<close>.\<close>

definition pack_B :: "int \<Rightarrow> error + byte list" where
  "pack_B b = (if 0 \<le> b \<and> b \<le> 255 then Inr [word_of_int b] else Inl StructError)"

subsection \<open>Python values\<close>

text \<open>
  A \<^verbatim>\<open>dict\<close> is an association list in insertion order with distinct keys:
  \<^verbatim>\<open>d[k]\<close> raises \<^verbatim>\<open>KeyError\<close> on a missing key, \<^verbatim>\<open>d[k] = v\<close> replaces in place
  or appends, \<^verbatim>\<open>del d[k]\<close> removes. \<^verbatim>\<open>int(x)\<close> truncates a finite float toward zero.
\<close>

definition py_trunc :: "rat \<Rightarrow> int" where
  "py_trunc r = (if 0 \<le> r then \<lfloor>r\<rfloor> else \<lceil>r\<rceil>)"

definition ebind :: "'e + 'a \<Rightarrow> ('a \<Rightarrow> 'e + 'b) \<Rightarrow> 'e + 'b" where
  "ebind m f = (case m of Inl e \<Rightarrow> Inl e | Inr v \<Rightarrow> f v)"

definition with_file :: "outfile \<Rightarrow> error + 'a \<Rightarrow> (error \<times> outfile) + 'a" where
  "with_file fl m = (case m of Inl e \<Rightarrow> Inl (e, fl) | Inr v \<Rightarrow> Inr v)"

fun mapM :: "('a \<Rightarrow> error + 'b) \<Rightarrow> 'a list \<Rightarrow> error + 'b list" where
  "mapM f [] = Inr []"
| "mapM f (x # xs) =
     (case f x of
        Inl e \<Rightarrow> Inl e
      | Inr y \<Rightarrow> (case mapM f xs of Inl e \<Rightarrow> Inl e | Inr ys \<Rightarrow> Inr (y # ys)))"

type_synonym 'v dict = "(string \<times> 'v) list"

definition dict_item :: "'v dict \<Rightarrow> string \<Rightarrow> error + 'v" where
  "dict_item d k = (case map_of d k of None \<Rightarrow> Inl (KeyError k) | Some v \<Rightarrow> Inr v)"

fun dict_set :: "'v dict \<Rightarrow> string \<Rightarrow> 'v \<Rightarrow> 'v dict" where
  "dict_set [] k v = [(k, v)]"
| "dict_set ((k', v') # d) k v = (if k' = k then (k, v) # d else (k', v') # dict_set d k v)"

definition dict_del :: "'v dict \<Rightarrow> string \<Rightarrow> 'v dict" where
  "dict_del d k = filter (\<lambda>kv. fst kv \<noteq> k) d"

definition dict_keys :: "'v dict \<Rightarrow> string list" where
  "dict_keys d = map fst d"

definition startswith :: "string \<Rightarrow> string \<Rightarrow> bool" where
  "startswith s p = (take (length p) s = p)"

definition endswith :: "string \<Rightarrow> string \<Rightarrow> bool" where
  "endswith s p = (length p \<le> length s \<and> drop (length s - length p) s = p)"

text \<open>\<^verbatim>\<open>s.split('.', n)\<close>: at most \<open>n\<close> splits, from the left.\<close>

fun split_dot :: "nat \<Rightarrow> string \<Rightarrow> string list" where
  "split_dot 0 s = [s]"
| "split_dot (Suc n) s =
     (if CHR ''.'' \<in> set s
      then takeWhile (\<lambda>c. c \<noteq> CHR ''.'') s # split_dot n (tl (dropWhile (\<lambda>c. c \<noteq> CHR ''.'') s))
      else [s])"

text \<open>
  \<^verbatim>\<open>int(s)\<close> on a string: surrounding whitespace is stripped, a sign may lead, and the
  rest is decimal digits, where single underscores may stand between digits. Anything
  else raises \<^verbatim>\<open>ValueError\<close>. (Strings are byte strings here, so the non-ASCII
  decimal digits that Python also reads are not digits of this model.)
\<close>

definition is_space :: "char \<Rightarrow> bool" where
  "is_space c = (c \<in> set [CHR '' '', CHR 0x09, CHR 0x0A, CHR 0x0B, CHR 0x0C, CHR 0x0D,
                           CHR 0x1C, CHR 0x1D, CHR 0x1E, CHR 0x1F])"

definition is_digit :: "char \<Rightarrow> bool" where
  "is_digit c = (c \<in> set ''0123456789'')"

definition digit_val :: "char \<Rightarrow> int" where
  "digit_val c = int (of_char c) - 48"

fun no_double_underscore :: "string \<Rightarrow> bool" where
  "no_double_underscore (a # b # s) =
     (\<not> (a = CHR ''_'' \<and> b = CHR ''_'') \<and> no_double_underscore (b # s))"
| "no_double_underscore s = True"

definition digits_int :: "string \<Rightarrow> error + int" where
  "digits_int s =
     (if s \<noteq> [] \<and> is_digit (hd s) \<and> is_digit (last s)
         \<and> (\<forall>c \<in> set s. is_digit c \<or> c = CHR ''_'') \<and> no_double_underscore s
      then Inr (foldl (\<lambda>acc c. 10 * acc + digit_val c) 0 (filter is_digit s))
      else Inl ValueError)"

definition py_int_str :: "string \<Rightarrow> error + int" where
  "py_int_str s0 =
     (let s = rev (dropWhile is_space (rev (dropWhile is_space s0)))
      in case s of
           [] \<Rightarrow> Inl ValueError
         | c # r \<Rightarrow>
             if c = CHR ''-'' then ebind (digits_int r) (\<lambda>v. Inr (- v))
             else if c = CHR ''+'' then digits_int r
             else digits_int s)"

definition list_item :: "'a list \<Rightarrow> nat \<Rightarrow> error + 'a" where
  "list_item xs i = (if i < length xs then Inr (xs ! i) else Inl IndexError)"

subsection \<open>Python numbers\<close>

text \<open>
  The hyperparameters that \<^verbatim>\<open>json.load\<close> returns are Python numbers: an \<^verbatim>\<open>int\<close>,
  which is unbounded, or a \<^verbatim>\<open>float\<close>, which is an IEEE-754 double. A finite double is
  modelled by the rational it stands for; there are the two infinities and one NaN. The
  two zeros of the doubles are one value here: Python raises on a division by either
  zero, and the sign of a zero reaches no byte of the output file.
\<close>

datatype pyfloat = Finite rat | PosInf | NegInf | NaN

datatype pyval = PInt int | PFloat pyfloat

text \<open>\<open>n / d\<close> rounded to the nearest integer, ties to even (for \<open>0 \<le> n\<close>, \<open>0 < d\<close>).\<close>

definition round_half_even_div :: "int \<Rightarrow> int \<Rightarrow> int" where
  "round_half_even_div n d =
     (let k = n div d; r2 = 2 * (n mod d)
      in if r2 < d then k else if d < r2 then k + 1 else if even k then k else k + 1)"

text \<open>
  Rounding to a double. For \<open>0 < p\<close> and \<open>0 < q\<close> the binary exponent \<open>e0\<close> of \<open>p / q\<close>
  is found from the bit lengths; below the smallest normal exponent the doubles are
  spaced as at that exponent. The significand is \<open>p / q\<close> in units of \<open>2 ^ (e - 52)\<close>,
  rounded to nearest, ties to even; a result of \<open>2 ^ 1024\<close> or more is an infinity.
\<close>

definition f64_round_pos :: "int \<Rightarrow> int \<Rightarrow> pyfloat" where
  "f64_round_pos p q =
     (let d = bitlen p - bitlen q;
          e0 = (if q * 2 ^ nat d \<le> p * 2 ^ nat (- d) then d else d - 1);
          e = max e0 (- 1022);
          m = round_half_even_div (p * 2 ^ nat (52 - e)) (q * 2 ^ nat (e - 52))
      in if 1024 \<le> e \<or> (e = 1023 \<and> m = 2 ^ 53) then PosInf
         else Finite (of_int m * 2 ^ nat (e - 52) / 2 ^ nat (52 - e)))"

definition f64_round :: "rat \<Rightarrow> pyfloat" where
  "f64_round r =
     (if r = 0 then Finite 0
      else
        (let (p, q) = quotient_of \<bar>r\<bar>
         in case f64_round_pos p q of
              Finite v \<Rightarrow> Finite (if r < 0 then - v else v)
            | _ \<Rightarrow> (if r < 0 then NegInf else PosInf)))"

definition is_neg :: "pyfloat \<Rightarrow> bool" where
  "is_neg a = (case a of Finite x \<Rightarrow> x < 0 | NegInf \<Rightarrow> True | _ \<Rightarrow> False)"

definition inf_of :: "bool \<Rightarrow> pyfloat" where
  "inf_of negative = (if negative then NegInf else PosInf)"

text \<open>The IEEE-754 product, sum and quotient; Python raises on a zero divisor.\<close>

definition float_mul :: "pyfloat \<Rightarrow> pyfloat \<Rightarrow> pyfloat" where
  "float_mul a b =
     (case a of
        NaN \<Rightarrow> NaN
      | Finite x \<Rightarrow>
          (case b of
             NaN \<Rightarrow> NaN
           | Finite y \<Rightarrow> f64_round (x * y)
           | _ \<Rightarrow> if x = 0 then NaN else inf_of (is_neg a \<noteq> is_neg b))
      | _ \<Rightarrow>
          (case b of
             NaN \<Rightarrow> NaN
           | Finite y \<Rightarrow> if y = 0 then NaN else inf_of (is_neg a \<noteq> is_neg b)
           | _ \<Rightarrow> inf_of (is_neg a \<noteq> is_neg b)))"

definition float_add :: "pyfloat \<Rightarrow> pyfloat \<Rightarrow> pyfloat" where
  "float_add a b =
     (case a of
        NaN \<Rightarrow> NaN
      | Finite x \<Rightarrow> (case b of Finite y \<Rightarrow> f64_round (x + y) | _ \<Rightarrow> b)
      | _ \<Rightarrow> (case b of NaN \<Rightarrow> NaN | Finite y \<Rightarrow> a | _ \<Rightarrow> if a = b then a else NaN))"

definition float_div :: "pyfloat \<Rightarrow> pyfloat \<Rightarrow> error + pyfloat" where
  "float_div a b =
     (case b of
        Finite y \<Rightarrow>
          if y = 0 then Inl ZeroDivisionError
          else (case a of
                  Finite x \<Rightarrow> Inr (f64_round (x / y))
                | NaN \<Rightarrow> Inr NaN
                | _ \<Rightarrow> Inr (inf_of (is_neg a \<noteq> (y < 0))))
      | NaN \<Rightarrow> Inr NaN
      | _ \<Rightarrow> (case a of Finite x \<Rightarrow> Inr (Finite 0) | _ \<Rightarrow> Inr NaN))"

text \<open>
  An \<^verbatim>\<open>int\<close> that meets a \<^verbatim>\<open>float\<close> in an operation is converted to the nearest
  double first, and the conversion raises \<^verbatim>\<open>OverflowError\<close> when that is an infinity.
\<close>

definition as_float :: "pyval \<Rightarrow> error + pyfloat" where
  "as_float v =
     (case v of
        PFloat a \<Rightarrow> Inr a
      | PInt i \<Rightarrow> (case f64_round (of_int i) of
                     Finite x \<Rightarrow> Inr (Finite x)
                   | _ \<Rightarrow> Inl OverflowError))"

text \<open>\<^verbatim>\<open>a * b\<close> and \<^verbatim>\<open>a + b\<close>: exact on two ints, the float operation otherwise.\<close>

definition py_mul :: "pyval \<Rightarrow> pyval \<Rightarrow> error + pyval" where
  "py_mul a b =
     (case (a, b) of
        (PInt i, PInt j) \<Rightarrow> Inr (PInt (i * j))
      | _ \<Rightarrow> ebind (as_float a) (\<lambda>x. ebind (as_float b) (\<lambda>y. Inr (PFloat (float_mul x y)))))"

definition py_add :: "pyval \<Rightarrow> pyval \<Rightarrow> error + pyval" where
  "py_add a b =
     (case (a, b) of
        (PInt i, PInt j) \<Rightarrow> Inr (PInt (i + j))
      | _ \<Rightarrow> ebind (as_float a) (\<lambda>x. ebind (as_float b) (\<lambda>y. Inr (PFloat (float_add x y)))))"

text \<open>
  \<^verbatim>\<open>a / b\<close> is a float also on two ints: the exact quotient rounded once, with
  \<^verbatim>\<open>OverflowError\<close> when it is too large for a double.
\<close>

definition py_truediv :: "pyval \<Rightarrow> pyval \<Rightarrow> error + pyval" where
  "py_truediv a b =
     (case (a, b) of
        (PInt i, PInt j) \<Rightarrow>
          if j = 0 then Inl ZeroDivisionError
          else (case f64_round (of_int i / of_int j) of
                  Finite x \<Rightarrow> Inr (PFloat (Finite x))
                | _ \<Rightarrow> Inl OverflowError)
      | _ \<Rightarrow> ebind (as_float a) (\<lambda>x. ebind (as_float b) (\<lambda>y.
               ebind (float_div x y) (\<lambda>z. Inr (PFloat z)))))"

text \<open>
  \<^verbatim>\<open>a // k\<close> for an int \<open>k\<close> (the source divides by 32 only): floor division on an
  int; on a finite float the floor of the quotient, which for a power of two is what
  Python's remainder-based algorithm returns, and NaN on an infinity or a NaN.
\<close>

definition py_floordiv :: "pyval \<Rightarrow> int \<Rightarrow> error + pyval" where
  "py_floordiv a k =
     (if k = 0 then Inl ZeroDivisionError
      else case a of
             PInt i \<Rightarrow> Inr (PInt (i div k))
           | PFloat (Finite x) \<Rightarrow> Inr (PFloat (f64_round (of_int \<lfloor>x / of_int k\<rfloor>)))
           | PFloat _ \<Rightarrow> Inr (PFloat NaN))"

text \<open>\<^verbatim>\<open>int(a)\<close>, \<^verbatim>\<open>a < k\<close> for an int \<open>k\<close>, and the truth value of a number.\<close>

definition py_int :: "pyval \<Rightarrow> error + int" where
  "py_int a =
     (case a of
        PInt i \<Rightarrow> Inr i
      | PFloat (Finite x) \<Rightarrow> Inr (py_trunc x)
      | PFloat NaN \<Rightarrow> Inl ValueError
      | PFloat _ \<Rightarrow> Inl OverflowError)"

definition py_lt :: "pyval \<Rightarrow> int \<Rightarrow> bool" where
  "py_lt a k =
     (case a of
        PInt i \<Rightarrow> i < k
      | PFloat (Finite x) \<Rightarrow> x < of_int k
      | PFloat NegInf \<Rightarrow> True
      | PFloat _ \<Rightarrow> False)"

definition py_truthy :: "pyval \<Rightarrow> bool" where
  "py_truthy a = (a \<noteq> PInt 0 \<and> a \<noteq> PFloat (Finite 0))"

subsection \<open>Floating point as a parameter\<close>

text \<open>
  The source computes with numpy and torch floats. Their arithmetic is library code, so
  it is a parameter of the model: a record of the operations the source applies to a
  float, over any carrier \<open>'f\<close>. \<open>f_int\<close> is Python's \<^verbatim>\<open>int(x)\<close>, which raises on a NaN
  or an infinity (\<open>None\<close>); \<open>half_bits\<close> and \<open>single_bits\<close> are the IEEE-754 bit
  patterns that \<^verbatim>\<open>struct.pack('e', np.float16(x))\<close> and \<^verbatim>\<open>struct.pack('f', x)\<close>
  lay out; \<open>f_lit\<close> reads a Python literal.
\<close>

record 'f numlib =
  f_lit :: "rat \<Rightarrow> 'f"
  f_neg :: "'f \<Rightarrow> 'f"
  f_gt :: "'f \<Rightarrow> 'f \<Rightarrow> bool"
  f_div :: "'f \<Rightarrow> 'f \<Rightarrow> 'f"
  f_mul :: "'f \<Rightarrow> 'f \<Rightarrow> 'f"
  f_add :: "'f \<Rightarrow> 'f \<Rightarrow> 'f"
  f_truthy :: "'f \<Rightarrow> bool"
  f_int :: "'f \<Rightarrow> int option"
  np_max :: "'f list \<Rightarrow> 'f"
  np_min :: "'f list \<Rightarrow> 'f"
  to_f32 :: "'f \<Rightarrow> 'f"
  half_bits :: "'f \<Rightarrow> 16 word"
  single_bits :: "'f \<Rightarrow> 32 word"

subsection \<open>quantizeQ40\<close>

text \<open>\<^verbatim>\<open>x.reshape(-1, groupSize)\<close>: the consecutive rows of \<open>n\<close> values.\<close>

definition reshape_rows :: "nat \<Rightarrow> 'a list \<Rightarrow> 'a list list" where
  "reshape_rows n xs = map (\<lambda>r. take n (drop (r * n) xs)) [0..<length xs div n]"

text \<open>\<^verbatim>\<open>np.where(-gmin > gmax, gmin, gmax)\<close>, one row at a time.\<close>

definition absMax_of :: "'f numlib \<Rightarrow> 'f \<Rightarrow> 'f \<Rightarrow> 'f" where
  "absMax_of lib gmin gmax = (if f_gt lib (f_neg lib gmin) gmax then gmin else gmax)"

text \<open>\<^verbatim>\<open>delta = groupAbsMax / -8\<close> and \<^verbatim>\<open>id = (1.0 / delta) if delta else 0\<close>.\<close>

definition delta_of :: "'f numlib \<Rightarrow> 'f \<Rightarrow> 'f" where
  "delta_of lib groupAbsMax = f_div lib groupAbsMax (f_lit lib (- 8))"

definition id_of :: "'f numlib \<Rightarrow> 'f \<Rightarrow> 'f" where
  "id_of lib delta = (if f_truthy lib delta then f_div lib (f_lit lib 1) delta else f_lit lib 0)"

text \<open>\<^verbatim>\<open>group[i] * id + 8.5\<close>.\<close>

definition q40_x :: "'f numlib \<Rightarrow> 'f \<Rightarrow> 'f \<Rightarrow> 'f" where
  "q40_x lib v id' = f_add lib (f_mul lib v id') (f_lit lib (17 / 2))"

text \<open>\<^verbatim>\<open>(xi0 & 0xF) | ((xi1 & 0xF) << 4)\<close> on Python's unbounded integers.\<close>

definition q40_pack :: "int \<Rightarrow> int \<Rightarrow> int" where
  "q40_pack xi0 xi1 = (xi0 AND 15) OR push_bit 4 (xi1 AND 15)"

text \<open>
  The inner loop \<^verbatim>\<open>for i in range(0, groupSizeHalf)\<close>, over the list of the indices
  still to visit, with the buffer and the byte counter it updates.
\<close>

fun q40_half_loop ::
  "'f numlib \<Rightarrow> 'f list \<Rightarrow> 'f \<Rightarrow> nat list \<Rightarrow> byte list \<times> int \<Rightarrow> error + (byte list \<times> int)" where
  "q40_half_loop lib grp id' [] (buffer, nBytes) = Inr (buffer, nBytes)"
| "q40_half_loop lib grp id' (i # rest) (buffer, nBytes) =
     (let x0 = q40_x lib (grp ! i) id';
          x1 = q40_x lib (grp ! (i + 16)) id'
      in case f_int lib x0 of
           None \<Rightarrow> Inl ConversionError
         | Some t0 \<Rightarrow>
             (case f_int lib x1 of
                None \<Rightarrow> Inl ConversionError
              | Some t1 \<Rightarrow>
                  (let xi0 = min 15 t0;
                       xi1 = min 15 t1;
                       b = q40_pack xi0 xi1
                   in case pack_B b of
                        Inl e \<Rightarrow> Inl e
                      | Inr bs \<Rightarrow> q40_half_loop lib grp id' rest (buffer @ bs, nBytes + 1))))"

text \<open>The outer loop \<^verbatim>\<open>for gi, group in enumerate(groups)\<close>; one write per group.\<close>

fun q40_group_loop ::
  "'f numlib \<Rightarrow> 'f list list \<Rightarrow> 'f list \<Rightarrow> nat list \<Rightarrow> outfile \<times> int
     \<Rightarrow> (error \<times> outfile) + (outfile \<times> int)" where
  "q40_group_loop lib groups absMax [] (file, nBytes) = Inr (file, nBytes)"
| "q40_group_loop lib groups absMax (gi # rest) (file, nBytes) =
     (let grp = groups ! gi;
          groupAbsMax = absMax ! gi;
          delta = delta_of lib groupAbsMax;
          id' = id_of lib delta;
          buffer = le16 (half_bits lib delta)
      in case q40_half_loop lib grp id' [0..<16] (buffer, nBytes + 2) of
           Inl e \<Rightarrow> Inl (e, file)
         | Inr (buffer', nBytes') \<Rightarrow>
             q40_group_loop lib groups absMax rest (file_write file buffer', nBytes'))"

definition quantizeQ40 ::
  "'f numlib \<Rightarrow> 'f list \<Rightarrow> outfile \<Rightarrow> (error \<times> outfile) + (outfile \<times> int)" where
  "quantizeQ40 lib x file =
     (if length x mod 32 \<noteq> 0 then Inl (AssertionError, file)
      else
        let groups = reshape_rows 32 x;
            gmax = map (np_max lib) groups;
            gmin = map (np_min lib) groups;
            absMax = map (\<lambda>(mn, mx). absMax_of lib mn mx) (zip gmin gmax)
        in q40_group_loop lib groups absMax [0..<length groups] (file, 0))"

text \<open>The inverse scale \<^verbatim>\<open>id\<close> that the group loop computes for a group.\<close>

definition group_scale :: "'f numlib \<Rightarrow> 'f list \<Rightarrow> 'f" where
  "group_scale lib grp =
     id_of lib (delta_of lib (absMax_of lib (np_min lib grp) (np_max lib grp)))"

subsection \<open>exportTensor\<close>

text \<open>
  A tensor is its shape and its elements in row-major order, which is what
  \<^verbatim>\<open>view(-1)\<close> reads. \<open>half_bits\<close> stands for the conversion to float16 followed by
  the \<^verbatim>\<open>'e'\<close> packing.
\<close>

record 'f tensor =
  t_shape :: "nat list"
  t_data :: "'f list"

definition exportTensor ::
  "'f numlib \<Rightarrow> outfile \<Rightarrow> 'f tensor \<Rightarrow> string \<Rightarrow> (error \<times> outfile) + (outfile \<times> int)" where
  "exportTensor lib file tensor floatType =
     (let d = t_data tensor
      in if floatType = ''float16'' then
           (let b = concat (map (\<lambda>v. le16 (half_bits lib v)) d)
            in Inr (file_write file b, int (length b)))
         else if floatType = ''float32'' then
           (let b = concat (map (\<lambda>v. le32 (single_bits lib (to_f32 lib v))) d)
            in Inr (file_write file b, int (length b)))
         else if floatType = ''q40'' then quantizeQ40 lib (map (to_f32 lib) d) file
         else Inl (UnknownFloatType, file))"

subsection \<open>toDict\<close>

text \<open>
  \<^verbatim>\<open>torch.cat\<close> is library code and a parameter \<open>cat\<close> of the merge. \<open>cat_axis\<close> below
  is the concatenation of row-major tensors along one axis, used to run the merge on
  concrete shards: a tensor of no dimension is refused, a 1-D tensor of no element is
  left out, the axis must exist, and the other tensors must agree in every other
  dimension. Element types and devices are not part of the model.
\<close>

definition is_axis_1 :: "string \<Rightarrow> bool" where
  "is_axis_1 name =
     (startswith name ''tok_embeddings.''
      \<or> endswith name ''.attention.wo.weight''
      \<or> endswith name ''.feed_forward.w2.weight'')"

text \<open>\<^verbatim>\<open>[model[name] for model in models]\<close>.\<close>

definition item_all :: "'v dict list \<Rightarrow> string \<Rightarrow> error + 'v list" where
  "item_all models name = mapM (\<lambda>model. dict_item model name) models"

text \<open>
  The loop \<^verbatim>\<open>for name in list(models[0])\<close> with the dictionary it builds and the shard
  mappings it deletes from.
\<close>

fun toDict_loop ::
  "('f tensor list \<Rightarrow> nat \<Rightarrow> error + 'f tensor) \<Rightarrow> string list
     \<Rightarrow> 'f tensor dict \<times> 'f tensor dict list \<Rightarrow> error + ('f tensor dict \<times> 'f tensor dict list)" where
  "toDict_loop cat [] (stateDict, models) = Inr (stateDict, models)"
| "toDict_loop cat (name # names) (stateDict, models) =
     (case item_all models name of
        Inl e \<Rightarrow> Inl e
      | Inr tensors \<Rightarrow>
          if length tensors = 1 \<or> length (t_shape (tensors ! 0)) = 1
          then toDict_loop cat names (dict_set stateDict name (tensors ! 0), models)
          else
            (let axis = (if is_axis_1 name then 1 else 0)
             in case cat tensors axis of
                  Inl e \<Rightarrow> Inl e
                | Inr t \<Rightarrow>
                    toDict_loop cat names
                      (dict_set stateDict name t, map (\<lambda>model. dict_del model name) models)))"

definition toDict ::
  "('f tensor list \<Rightarrow> nat \<Rightarrow> error + 'f tensor) \<Rightarrow> 'f tensor dict list
     \<Rightarrow> error + ('f tensor dict \<times> 'f tensor dict list)" where
  "toDict cat models =
     (case models of
        [] \<Rightarrow> Inl IndexError
      | m0 # _ \<Rightarrow> toDict_loop cat (dict_keys m0) ([], models))"


subsection \<open>writeHeader, getBytes, getBlockOffsets\<close>

text \<open>
  \<^verbatim>\<open>struct.pack('i', v)\<close> raises unless \<open>v\<close> is an \<^verbatim>\<open>int\<close> of 32 bits; it refuses a
  \<^verbatim>\<open>float\<close>, also one with an integral value.
\<close>

definition pack_i :: "pyval \<Rightarrow> error + byte list" where
  "pack_i v =
     (case v of
        PInt i \<Rightarrow> if - (2 ^ 31) \<le> i \<and> i < 2 ^ 31 then Inr (le32 (word_of_int i))
                  else Inl StructError
      | PFloat _ \<Rightarrow> Inl StructError)"

definition header_keys :: "string list" where
  "header_keys = [''dim'', ''hidden_dim'', ''n_layers'', ''n_heads'', ''n_kv_heads'',
                  ''vocab_size'', ''max_seq_len'']"

definition writeHeader :: "outfile \<Rightarrow> pyval dict \<Rightarrow> (error \<times> outfile) + (outfile \<times> int)" where
  "writeHeader outFile p =
     (case mapM (dict_item p) header_keys of
        Inl e \<Rightarrow> Inl (e, outFile)
      | Inr vs \<Rightarrow>
          (case mapM pack_i vs of
             Inl e \<Rightarrow> Inl (e, outFile)
           | Inr bss \<Rightarrow>
               (let header = concat bss
                in Inr (file_write outFile header, int (length header)))))"

definition getBytes :: "pyval \<Rightarrow> string \<Rightarrow> error + int" where
  "getBytes nNumbers targetFloatType =
     (if targetFloatType = ''float32'' then ebind (py_mul nNumbers (PInt 4)) py_int
      else if targetFloatType = ''float16'' then ebind (py_mul nNumbers (PInt 2)) py_int
      else if targetFloatType = ''q40'' then
        ebind (py_floordiv nNumbers 32) (\<lambda>groups. ebind (py_mul groups (PInt 18)) py_int)
      else Inl UnknownFloatType)"

text \<open>
  The loop \<^verbatim>\<open>for key in list(result.keys())\<close> that adds the \<^verbatim>\<open>_offset\<close> entries, with
  the running total.
\<close>

fun offsets_loop :: "string list \<Rightarrow> int dict \<times> int \<Rightarrow> error + (int dict \<times> int)" where
  "offsets_loop [] (result, total') = Inr (result, total')"
| "offsets_loop (key # rest) (result, total') =
     (let result' = dict_set result (key @ ''_offset'') total'
      in case dict_item result' key of
           Inl e \<Rightarrow> Inl e
         | Inr sz \<Rightarrow> offsets_loop rest (result', total' + sz))"

text \<open>\<^verbatim>\<open>getBytes(a * b, targetFloatType)\<close>.\<close>

definition product_bytes :: "pyval \<Rightarrow> pyval \<Rightarrow> string \<Rightarrow> error + int" where
  "product_bytes a b targetFloatType = ebind (py_mul a b) (\<lambda>n. getBytes n targetFloatType)"

text \<open>
  \<^verbatim>\<open>kvDim\<close> is the result of a true division, so it is a float also when the
  hyperparameters are ints, and so are the two element counts computed from it.
\<close>

definition getBlockOffsets :: "pyval dict \<Rightarrow> string \<Rightarrow> error + int dict" where
  "getBlockOffsets params targetFloatType =
     ebind (dict_item params ''dim'') (\<lambda>dim.
     ebind (dict_item params ''n_kv_heads'') (\<lambda>n_kv_heads.
     ebind (py_mul dim n_kv_heads) (\<lambda>dim_kv.
     ebind (dict_item params ''n_heads'') (\<lambda>n_heads.
     ebind (py_truediv dim_kv n_heads) (\<lambda>kvDim.
     ebind (getBytes dim ''float32'') (\<lambda>rms.
     ebind (getBytes dim ''float32'') (\<lambda>ffn.
     ebind (product_bytes dim dim targetFloatType) (\<lambda>q.
     ebind (product_bytes dim kvDim targetFloatType) (\<lambda>k.
     ebind (product_bytes dim kvDim targetFloatType) (\<lambda>v.
     ebind (product_bytes dim dim targetFloatType) (\<lambda>wo.
     ebind (dict_item params ''hidden_dim'') (\<lambda>hidden_dim.
     ebind (product_bytes dim hidden_dim targetFloatType) (\<lambda>w1.
     ebind (product_bytes hidden_dim dim targetFloatType) (\<lambda>w2.
     ebind (product_bytes dim hidden_dim targetFloatType) (\<lambda>w3.
     (let result = [(''attention_norm.weight'', rms),
                    (''ffn_norm.weight'', ffn),
                    (''attention.wq.weight'', q),
                    (''attention.wk.weight'', k),
                    (''attention.wv.weight'', v),
                    (''attention.wo.weight'', wo),
                    (''feed_forward.w1.weight'', w1),
                    (''feed_forward.w2.weight'', w2),
                    (''feed_forward.w3.weight'', w3)]
      in ebind (offsets_loop (dict_keys result) (result, 0)) (\<lambda>(result', total').
         Inr (dict_set result' ''_total'' total'))))))))))))))))))"

subsection \<open>convert\<close>

text \<open>
  The part of \<^verbatim>\<open>convert\<close> under \<^verbatim>\<open>with open(paramsPath)\<close>, on the dictionary that
  \<^verbatim>\<open>json.load\<close> returned.
\<close>

definition load_params :: "pyval dict \<Rightarrow> error + pyval dict" where
  "load_params params0 =
     ebind (dict_item params0 ''vocab_size'') (\<lambda>vocab_size.
     if py_lt vocab_size 1 then Inl InvalidVocabSize
     else
       ebind (case map_of params0 ''n_kv_heads'' of
                None \<Rightarrow> dict_item params0 ''n_heads''
              | Some v \<Rightarrow> if py_truthy v then Inr v else dict_item params0 ''n_heads'')
         (\<lambda>n_kv_heads.
       (let params1 = dict_set params0 ''n_kv_heads'' n_kv_heads
        in ebind (dict_item params1 ''dim'') (\<lambda>dim.
           ebind (dict_item params1 ''n_heads'') (\<lambda>n_heads.
           ebind (py_truediv dim n_heads) (\<lambda>head_size.
             (let params2 = dict_set params1 ''head_size'' head_size;
                  params3 = dict_set params2 ''max_seq_len'' (PInt 2048)
              in Inr params3)))))))"

text \<open>The three sizes computed before the shard loop.\<close>

record sizes =
  tokenEmbeddingBytes :: int
  rmsFinalBytes :: int
  wclsBytes :: int

definition global_sizes :: "pyval dict \<Rightarrow> string \<Rightarrow> error + sizes" where
  "global_sizes params targetFloatType =
     ebind (dict_item params ''vocab_size'') (\<lambda>vocab_size.
     ebind (dict_item params ''dim'') (\<lambda>dim.
     ebind (product_bytes vocab_size dim ''float32'') (\<lambda>te.
     ebind (getBytes dim ''float32'') (\<lambda>rf.
     ebind (product_bytes vocab_size dim targetFloatType) (\<lambda>wc.
     Inr \<lparr> tokenEmbeddingBytes = te, rmsFinalBytes = rf, wclsBytes = wc \<rparr>)))))"

text \<open>
  The variables that the block under \<^verbatim>\<open>if (not isHeaderWritten)\<close> binds. They are
  unbound until the header is written, which is the first thing the first shard does.
  \<^verbatim>\<open>tensor.shape[0]\<close> is an \<^verbatim>\<open>int\<close>.
\<close>

record layout =
  headerOffset :: int
  blockOffsets :: "int dict"
  afterBlocksOffset :: int
  ropeBytes :: int

definition write_header_block ::
  "outfile \<Rightarrow> pyval dict \<Rightarrow> string \<Rightarrow> sizes \<Rightarrow> 'f tensor dict
     \<Rightarrow> (error \<times> outfile) + (outfile \<times> pyval dict \<times> layout)" where
  "write_header_block outFile params targetFloatType sz modelDict =
     (case ebind (dict_item modelDict ''layers.0.feed_forward.w1.weight'')
             (\<lambda>t. list_item (t_shape t) 0) of
        Inl e \<Rightarrow> Inl (e, outFile)
      | Inr hidden \<Rightarrow>
          (let params' = dict_set params ''hidden_dim'' (PInt (int hidden))
           in case writeHeader outFile params' of
                Inl ef \<Rightarrow> Inl ef
              | Inr (outFile', hdr) \<Rightarrow>
                  with_file outFile'
                    (ebind (getBlockOffsets params' targetFloatType) (\<lambda>bo.
                     ebind (dict_item bo ''_total'') (\<lambda>total'.
                     ebind (dict_item params' ''n_layers'') (\<lambda>n_layers.
                     ebind (py_mul (PInt total') n_layers) (\<lambda>blocks.
                     ebind (py_add (PInt (hdr + tokenEmbeddingBytes sz)) blocks) (\<lambda>after.
                     ebind (py_int after) (\<lambda>afterBlocks.
                     ebind (dict_item params' ''max_seq_len'') (\<lambda>max_seq_len.
                     ebind (dict_item params' ''head_size'') (\<lambda>head_size.
                     ebind (py_mul max_seq_len head_size) (\<lambda>rope.
                     ebind (py_truediv rope (PInt 2)) (\<lambda>ropeNumbers.
                     ebind (getBytes ropeNumbers ''float32'') (\<lambda>rb.
                     Inr (outFile', params',
                          \<lparr> headerOffset = hdr,
                            blockOffsets = bo,
                            afterBlocksOffset = afterBlocks,
                            ropeBytes = rb * 2 \<rparr>)))))))))))))))"

text \<open>
  The state that the tensor loop updates: the file, the local \<^verbatim>\<open>layerSize\<close> (unbound
  at first, and kept from the previous tensor afterwards) and \<^verbatim>\<open>layerProcessedBytes\<close>.
\<close>

record conv_state =
  st_file :: outfile
  st_layerSize :: "int option"
  st_processed :: "int dict"

text \<open>\<^verbatim>\<open>layerProcessedBytes.get(layerName) or 0\<close>.\<close>

definition processed_of :: "conv_state \<Rightarrow> string \<Rightarrow> int" where
  "processed_of st layerName =
     (case map_of (st_processed st) layerName of None \<Rightarrow> 0 | Some v \<Rightarrow> v)"

text \<open>Seek, export with the given encoding, and add the byte count to \<open>processedBytes\<close>.\<close>

definition seek_export ::
  "'f numlib \<Rightarrow> outfile \<Rightarrow> int \<Rightarrow> 'f tensor \<Rightarrow> string \<Rightarrow> int
     \<Rightarrow> (error \<times> outfile) + (outfile \<times> int)" where
  "seek_export lib outFile off tensor floatType processedBytes =
     (case file_seek outFile off of
        Inl ef \<Rightarrow> Inl ef
      | Inr f \<Rightarrow>
          (case exportTensor lib f tensor floatType of
             Inl ef \<Rightarrow> Inl ef
           | Inr (f', n) \<Rightarrow> Inr (f', processedBytes + n)))"

text \<open>
  The branches of the loop body from \<^verbatim>\<open>if (nameParts[0] == 'layers')\<close> to the final
  \<^verbatim>\<open>else\<close>: the file, \<^verbatim>\<open>layerSize\<close> and \<^verbatim>\<open>processedBytes\<close> they leave.
\<close>

definition tensor_branch ::
  "'f numlib \<Rightarrow> string \<Rightarrow> sizes \<Rightarrow> layout \<Rightarrow> conv_state \<Rightarrow> string \<Rightarrow> 'f tensor \<Rightarrow> int
     \<Rightarrow> (error \<times> outfile) + (outfile \<times> int option \<times> int)" where
  "tensor_branch lib targetFloatType sz lay st layerName tensor processedBytes =
     (let nameParts = split_dot 2 layerName;
          outFile = st_file st
      in if nameParts ! 0 = ''layers'' then
           (case ebind (list_item nameParts 1) (\<lambda>part1.
                 ebind (py_int_str part1) (\<lambda>index.
                 ebind (list_item nameParts 2) (\<lambda>part2.
                 ebind (dict_item (blockOffsets lay) part2) (\<lambda>layerSize.
                 ebind (dict_item (blockOffsets lay) (part2 @ ''_offset'')) (\<lambda>layerOffset.
                 ebind (dict_item (blockOffsets lay) ''_total'') (\<lambda>total'.
                 Inr (part2, layerSize,
                      headerOffset lay + tokenEmbeddingBytes sz + total' * index
                        + layerOffset + processedBytes))))))) of
              Inl e \<Rightarrow> Inl (e, outFile)
            | Inr (part2, layerSize, tensorOffset) \<Rightarrow>
                (let tensorFloatType =
                       (if part2 = ''attention_norm.weight'' \<or> part2 = ''ffn_norm.weight''
                        then ''float32'' else targetFloatType)
                 in case seek_export lib outFile tensorOffset tensor tensorFloatType
                           processedBytes of
                      Inl ef \<Rightarrow> Inl ef
                    | Inr (f, pb) \<Rightarrow> Inr (f, Some layerSize, pb)))
         else if layerName = ''tok_embeddings.weight'' then
           (case seek_export lib outFile (headerOffset lay + processedBytes) tensor ''float32''
                   processedBytes of
              Inl ef \<Rightarrow> Inl ef
            | Inr (f, pb) \<Rightarrow> Inr (f, Some (tokenEmbeddingBytes sz), pb))
         else if layerName = ''norm.weight'' then
           (case seek_export lib outFile (afterBlocksOffset lay + processedBytes) tensor
                   ''float32'' processedBytes of
              Inl ef \<Rightarrow> Inl ef
            | Inr (f, pb) \<Rightarrow> Inr (f, Some (rmsFinalBytes sz), pb))
         else if layerName = ''rope.freqs'' then
           Inr (outFile, st_layerSize st, - 1)
         else if layerName = ''output.weight'' then
           (case seek_export lib outFile
                   (afterBlocksOffset lay + rmsFinalBytes sz + ropeBytes lay + processedBytes)
                   tensor targetFloatType processedBytes of
              Inl ef \<Rightarrow> Inl ef
            | Inr (f, pb) \<Rightarrow> Inr (f, Some (wclsBytes sz), pb))
         else Inl (UnknownLayer layerName, outFile))"

text \<open>One round of \<^verbatim>\<open>for layerName in modelDict.keys()\<close>.\<close>

definition convert_tensor ::
  "'f numlib \<Rightarrow> string \<Rightarrow> sizes \<Rightarrow> layout \<Rightarrow> conv_state \<Rightarrow> string \<Rightarrow> 'f tensor
     \<Rightarrow> (error \<times> outfile) + conv_state" where
  "convert_tensor lib targetFloatType sz lay st layerName tensor =
     (let processedBytes = processed_of st layerName
      in if processedBytes = - 1 then Inr st
         else
           (case tensor_branch lib targetFloatType sz lay st layerName tensor processedBytes of
              Inl ef \<Rightarrow> Inl ef
            | Inr (f, layerSize, pb) \<Rightarrow>
                (case layerSize of
                   None \<Rightarrow> Inl (UnboundLocalError, f)
                 | Some expected \<Rightarrow>
                     (let pb' = (if pb = expected then - 1 else pb)
                      in Inr \<lparr> st_file = f, st_layerSize = layerSize,
                               st_processed = dict_set (st_processed st) layerName pb' \<rparr>))))"

fun convert_tensors ::
  "'f numlib \<Rightarrow> string \<Rightarrow> sizes \<Rightarrow> layout \<Rightarrow> 'f tensor dict \<Rightarrow> conv_state
     \<Rightarrow> (error \<times> outfile) + conv_state" where
  "convert_tensors lib targetFloatType sz lay [] st = Inr st"
| "convert_tensors lib targetFloatType sz lay ((layerName, tensor) # rest) st =
     (case convert_tensor lib targetFloatType sz lay st layerName tensor of
        Inl ef \<Rightarrow> Inl ef
      | Inr st' \<Rightarrow> convert_tensors lib targetFloatType sz lay rest st')"

text \<open>
  The shard loop \<^verbatim>\<open>for modelPath in modelPaths\<close>, over the dictionaries that
  \<^verbatim>\<open>torch.load\<close> returns for the sorted shard files. \<open>layerProcessedBytes\<close> is
  created before the loop and lives through all shards.
\<close>

fun convert_shards ::
  "'f numlib \<Rightarrow> ('f tensor list \<Rightarrow> nat \<Rightarrow> error + 'f tensor) \<Rightarrow> string \<Rightarrow> sizes
     \<Rightarrow> 'f tensor dict list \<Rightarrow> pyval dict \<times> layout option \<times> conv_state
     \<Rightarrow> (error \<times> outfile) + conv_state" where
  "convert_shards lib cat targetFloatType sz [] (params, lay, st) = Inr st"
| "convert_shards lib cat targetFloatType sz (model # rest) (params, lay, st) =
     (case toDict cat [model] of
        Inl e \<Rightarrow> Inl (e, st_file st)
      | Inr (modelDict, released) \<Rightarrow>
          (case (case lay of
                   Some l \<Rightarrow> Inr (st_file st, params, l)
                 | None \<Rightarrow> write_header_block (st_file st) params targetFloatType sz modelDict) of
             Inl ef \<Rightarrow> Inl ef
           | Inr (f, params', l) \<Rightarrow>
               (case convert_tensors lib targetFloatType sz l modelDict (st\<lparr>st_file := f\<rparr>) of
                  Inl ef \<Rightarrow> Inl ef
                | Inr st' \<Rightarrow>
                    convert_shards lib cat targetFloatType sz rest (params', Some l, st'))))"

definition file0 :: outfile where
  "file0 = \<lparr> fpos = 0, fwrites = [] \<rparr>"

text \<open>
  The loop after the shard loop prints one line for every name whose recorded progress
  is not negative: the names that are not completed, with their progress, in the order
  of \<open>layerProcessedBytes\<close>.
\<close>

definition not_completed :: "int dict \<Rightarrow> (string \<times> int) list" where
  "not_completed layerProcessedBytes =
     filter (\<lambda>(layerName, processedBytes). 0 \<le> processedBytes) layerProcessedBytes"

text \<open>
  \<open>convert\<close> returns the file as the shard loop left it (\<^verbatim>\<open>close\<close> leaves the bytes
  as they are) and the lines of the final loop; its other prints are not modelled. When
  it raises, the file is what was written until then.
\<close>

definition convert ::
  "'f numlib \<Rightarrow> ('f tensor list \<Rightarrow> nat \<Rightarrow> error + 'f tensor) \<Rightarrow> pyval dict
     \<Rightarrow> 'f tensor dict list \<Rightarrow> string
     \<Rightarrow> (error \<times> outfile) + (outfile \<times> (string \<times> int) list)" where
  "convert lib cat params0 models targetFloatType =
     (case ebind (load_params params0) (\<lambda>params.
           ebind (global_sizes params targetFloatType) (\<lambda>sz. Inr (params, sz))) of
        Inl e \<Rightarrow> Inl (e, file0)
      | Inr (params, sz) \<Rightarrow>
          (case convert_shards lib cat targetFloatType sz models
                  (params, None,
                   \<lparr> st_file = file0, st_layerSize = None, st_processed = [] \<rparr>) of
             Inl ef \<Rightarrow> Inl ef
           | Inr st \<Rightarrow> Inr (st_file st, not_completed (st_processed st))))"

subsection \<open>An instance of the float operations: exact rationals\<close>

text \<open>
  The theorems below hold for every record of float operations. To run the model on
  concrete tensors there is one instance, which is an idealisation and not numpy's
  arithmetic: it computes on rationals without rounding, so it has no overflow, no NaN,
  no infinity and one zero, and \<^verbatim>\<open>int\<close> never raises in it. It agrees with IEEE-754
  arithmetic on every operation whose operands and exact result are floats of the width
  the operation has in numpy; the tensors of the examples below hold small integers, for
  which that is the case. Only its bit patterns round: they are the IEEE-754 encodings
  of the rational, rounded to nearest, ties to even, overflowing to infinity.
\<close>

text \<open>
  The binary exponent of \<open>num / den\<close>, counted from \<open>e\<close> and at most \<open>n\<close> above it:
  the denominator is doubled while the quotient is 2 or more.
\<close>

fun exponent_from :: "nat \<Rightarrow> int \<Rightarrow> int \<Rightarrow> int \<Rightarrow> int \<times> int" where
  "exponent_from 0 e num den = (e, den)"
| "exponent_from (Suc n) e num den =
     (if num < 2 * den then (e, den) else exponent_from n (e + 1) num (2 * den))"

text \<open>
  The bit pattern of a rational in the binary format with \<open>eb\<close> exponent bits and \<open>mb\<close>
  mantissa bits. The value is \<open>p / q\<close>; scaled by the smallest normal exponent it is
  \<open>num / q\<close>; with the exponent \<open>e\<close> found, the mantissa is \<open>num * 2 ^ mb / den\<close> rounded,
  which carries into the exponent field by itself and is below \<open>2 ^ mb\<close> for a
  subnormal.
\<close>

definition ieee_bits :: "nat \<Rightarrow> nat \<Rightarrow> rat \<Rightarrow> int" where
  "ieee_bits eb mb r =
     (let bias = 2 ^ (eb - 1) - 1;
          emin = 1 - bias;
          (p, q) = quotient_of \<bar>r\<bar>;
          num = p * 2 ^ nat (bias - 1);
          (e, den) = exponent_from (nat (2 * bias)) emin num q;
          m = round_half_even_div (num * 2 ^ mb) den;
          raw = (e + bias - 1) * 2 ^ mb + m;
          inf = (2 ^ eb - 1) * 2 ^ mb;
          mag = min raw inf
      in (if r < 0 then 2 ^ (eb + mb) else 0) + mag)"

definition exact_lib :: "rat numlib" where
  "exact_lib =
     \<lparr> f_lit = (\<lambda>r. r),
       f_neg = uminus,
       f_gt = (\<lambda>a b. b < a),
       f_div = (\<lambda>a b. a / b),
       f_mul = (\<lambda>a b. a * b),
       f_add = (\<lambda>a b. a + b),
       f_truthy = (\<lambda>a. a \<noteq> 0),
       f_int = (\<lambda>a. Some (py_trunc a)),
       np_max = (\<lambda>g. fold max (tl g) (hd g)),
       np_min = (\<lambda>g. fold min (tl g) (hd g)),
       to_f32 = (\<lambda>a. a),
       half_bits = (\<lambda>a. word_of_int (ieee_bits 5 10 a)),
       single_bits = (\<lambda>a. word_of_int (ieee_bits 8 23 a)) \<rparr>"

definition ramp :: "rat list" where
  "ramp = map of_int [- 8..23]"

subsection \<open>The Q40 group layout in the words of the specification\<close>

text \<open>
  Section 4.4 of the specification: per group of 32 values the extremes, \<open>absMax\<close>,
  \<open>delta\<close>, the inverse scale, then two bytes of \<open>delta\<close> in half precision and 16
  bytes, byte \<open>i\<close> holding the index of value \<open>i\<close> in its low nibble and the index of
  value \<open>i + 16\<close> in its high nibble. These definitions follow the specification, not
  the source; \<open>quantizeQ40\<close> above is compared with them.
\<close>

definition nibbles :: "int \<Rightarrow> int \<Rightarrow> byte" where
  "nibbles lo hi = word_of_int (lo mod 16 + 16 * (hi mod 16))"

definition spec_byte :: "'f numlib \<Rightarrow> 'f list \<Rightarrow> 'f \<Rightarrow> nat \<Rightarrow> byte option" where
  "spec_byte lib grp invScale i =
     (case (f_int lib (f_add lib (f_mul lib (grp ! i) invScale) (f_lit lib (17 / 2))),
            f_int lib (f_add lib (f_mul lib (grp ! (i + 16)) invScale) (f_lit lib (17 / 2)))) of
        (Some idx_lo, Some idx_hi) \<Rightarrow> Some (nibbles (min 15 idx_lo) (min 15 idx_hi))
      | _ \<Rightarrow> None)"

definition spec_group :: "'f numlib \<Rightarrow> 'f list \<Rightarrow> byte list option" where
  "spec_group lib grp =
     (let gmax = np_max lib grp;
          gmin = np_min lib grp;
          absMax = (if f_gt lib (f_neg lib gmin) gmax then gmin else gmax);
          delta = f_div lib absMax (f_lit lib (- 8));
          invScale = (if f_truthy lib delta then f_div lib (f_lit lib 1) delta else f_lit lib 0)
      in map_option (\<lambda>bs. le16 (half_bits lib delta) @ bs)
           (those (map (spec_byte lib grp invScale) [0..<16])))"

fun q40_spec :: "'f numlib \<Rightarrow> 'f list list \<Rightarrow> outfile \<Rightarrow> (error \<times> outfile) + outfile" where
  "q40_spec lib [] file = Inr file"
| "q40_spec lib (grp # rest) file =
     (case spec_group lib grp of
        None \<Rightarrow> Inl (ConversionError, file)
      | Some bs \<Rightarrow> q40_spec lib rest (file_write file bs))"

subsection \<open>What a tensor's write looks like\<close>

text \<open>
  Section 4.3 of the specification: a tensor encoded as float32 is its elements as
  4-byte singles, as float16 its elements as 2-byte halves, as q40 the 18-byte groups of
  section 4.4. \<open>encoded\<close> gives these bytes in the pieces that reach the file (one piece
  for float16 and float32, one per group for q40), and \<open>writes_at\<close> lays pieces out
  one after the other from a position. \<open>expected_size\<close> is the size that the layout
  gives the field a tensor name stands for.
\<close>

definition encoded :: "'f numlib \<Rightarrow> 'f tensor \<Rightarrow> string \<Rightarrow> byte list list option" where
  "encoded lib tensor floatType =
     (if floatType = ''float32''
      then Some [concat (map (\<lambda>v. le32 (single_bits lib (to_f32 lib v))) (t_data tensor))]
      else if floatType = ''float16''
      then Some [concat (map (\<lambda>v. le16 (half_bits lib v)) (t_data tensor))]
      else if floatType = ''q40'' \<and> length (t_data tensor) mod 32 = 0
      then those (map (spec_group lib) (reshape_rows 32 (map (to_f32 lib) (t_data tensor))))
      else None)"

fun writes_at :: "nat \<Rightarrow> byte list list \<Rightarrow> (nat \<times> byte list) list" where
  "writes_at pos [] = []"
| "writes_at pos (b # bs) = (pos, b) # writes_at (pos + length b) bs"

definition expected_size :: "sizes \<Rightarrow> layout \<Rightarrow> string \<Rightarrow> int option" where
  "expected_size sz lay layerName =
     (let nameParts = split_dot 2 layerName
      in if nameParts ! 0 = ''layers''
         then (if length nameParts = 3 then map_of (blockOffsets lay) (nameParts ! 2) else None)
         else if layerName = ''tok_embeddings.weight'' then Some (tokenEmbeddingBytes sz)
         else if layerName = ''norm.weight'' then Some (rmsFinalBytes sz)
         else if layerName = ''output.weight'' then Some (wclsBytes sz)
         else None)"

text \<open>
  The encoding that the tensor loop uses for a name: float32 for the two norm fields of
  a layer, for the token embedding and for the final norm, the target encoding for
  the other fields of a layer and for the output weights.
\<close>

definition name_encoding :: "string \<Rightarrow> string \<Rightarrow> string" where
  "name_encoding targetFloatType layerName =
     (let nameParts = split_dot 2 layerName
      in if nameParts ! 0 = ''layers''
         then (if drop 2 nameParts = [''attention_norm.weight'']
                  \<or> drop 2 nameParts = [''ffn_norm.weight'']
               then ''float32'' else targetFloatType)
         else if layerName = ''output.weight'' then targetFloatType
         else ''float32'')"

text \<open>
  The number of bytes of a tensor in an encoding, and the number of bytes that the
  slices of one name among the tensors \<open>pre\<close> have in the encoding of that name.
\<close>

definition encoded_size :: "'f numlib \<Rightarrow> 'f tensor \<Rightarrow> string \<Rightarrow> int" where
  "encoded_size lib tensor floatType =
     (case encoded lib tensor floatType of
        None \<Rightarrow> 0
      | Some chunks \<Rightarrow> int (length (concat chunks)))"

definition written_before :: "'f numlib \<Rightarrow> string \<Rightarrow> 'f tensor dict \<Rightarrow> string \<Rightarrow> int" where
  "written_before lib targetFloatType pre layerName =
     sum_list (map (\<lambda>(n, tensor). encoded_size lib tensor (name_encoding targetFloatType layerName))
                 (filter (\<lambda>(n, tensor). n = layerName) pre))"

text \<open>
  A run of \<open>convert\<close> cut after some tensors: the parameters are loaded, the sizes
  computed, the header block run on the first shard \<open>model0\<close>, and the tensors \<open>pre\<close>
  (the first tensors of the shards, in order) are handled from the empty
  \<open>layerProcessedBytes\<close>. The result is the sizes, the layout and the state in which the
  run meets the next tensor.
\<close>

definition run_prefix ::
  "'f numlib \<Rightarrow> pyval dict \<Rightarrow> 'f tensor dict \<Rightarrow> string \<Rightarrow> 'f tensor dict
     \<Rightarrow> (error \<times> outfile) + (sizes \<times> layout \<times> conv_state)" where
  "run_prefix lib params0 model0 targetFloatType pre =
     (case ebind (load_params params0) (\<lambda>params.
           ebind (global_sizes params targetFloatType) (\<lambda>sz. Inr (params, sz))) of
        Inl e \<Rightarrow> Inl (e, file0)
      | Inr (params, sz) \<Rightarrow>
          (case write_header_block file0 params targetFloatType sz model0 of
             Inl ef \<Rightarrow> Inl ef
           | Inr (f, params', lay) \<Rightarrow>
               (case convert_tensors lib targetFloatType sz lay pre
                       \<lparr> st_file = f, st_layerSize = None, st_processed = [] \<rparr> of
                  Inl ef \<Rightarrow> Inl ef
                | Inr st \<Rightarrow> Inr (sz, lay, st))))"

text \<open>The nine fields of a layer, in the order of the block.\<close>

definition block_fields :: "string list" where
  "block_fields = [''attention_norm.weight'', ''ffn_norm.weight'', ''attention.wq.weight'',
                   ''attention.wk.weight'', ''attention.wv.weight'', ''attention.wo.weight'',
                   ''feed_forward.w1.weight'', ''feed_forward.w2.weight'',
                   ''feed_forward.w3.weight'']"

subsection \<open>Two example shards\<close>



subsection \<open>A toy checkpoint\<close>

text \<open>
  Hyperparameters with a \<^verbatim>\<open>max_seq_len\<close> of their own, and a checkpoint of two shards
  for them. The shards hold one half each of the token embedding, of the query weights
  and of the output weights; the first holds the norms whole, and the second holds
  them again, with an \<^verbatim>\<open>ffn_norm\<close> of three elements where \<open>dim\<close> is two.
\<close>

definition toy_params :: "pyval dict" where
  "toy_params = [(''dim'', PInt 2), (''n_layers'', PInt 1), (''n_heads'', PInt 1),
                 (''vocab_size'', PInt 2), (''max_seq_len'', PInt 4096)]"

definition toy_shard0 :: "rat tensor dict" where
  "toy_shard0 =
     [(''tok_embeddings.weight'', \<lparr>t_shape = [2, 1], t_data = [1, 2]\<rparr>),
      (''layers.0.attention_norm.weight'', \<lparr>t_shape = [2], t_data = [1, 1]\<rparr>),
      (''layers.0.attention.wq.weight'', \<lparr>t_shape = [1, 2], t_data = [3, 4]\<rparr>),
      (''layers.0.feed_forward.w1.weight'', \<lparr>t_shape = [1, 2], t_data = [5, 6]\<rparr>),
      (''norm.weight'', \<lparr>t_shape = [2], t_data = [7, 8]\<rparr>),
      (''rope.freqs'', \<lparr>t_shape = [1], t_data = [9]\<rparr>),
      (''output.weight'', \<lparr>t_shape = [1, 2], t_data = [1, 2]\<rparr>)]"

definition toy_shard1 :: "rat tensor dict" where
  "toy_shard1 =
     [(''tok_embeddings.weight'', \<lparr>t_shape = [2, 1], t_data = [3, 4]\<rparr>),
      (''layers.0.attention_norm.weight'', \<lparr>t_shape = [2], t_data = [1, 1]\<rparr>),
      (''layers.0.attention.wq.weight'', \<lparr>t_shape = [1, 2], t_data = [7, 8]\<rparr>),
      (''layers.0.ffn_norm.weight'', \<lparr>t_shape = [3], t_data = [1, 1, 1]\<rparr>),
      (''norm.weight'', \<lparr>t_shape = [2], t_data = [7, 8]\<rparr>),
      (''output.weight'', \<lparr>t_shape = [1, 2], t_data = [3, 4]\<rparr>)]"

text \<open>Two second shards with a name that the tensor loop does not know.\<close>

definition toy_shard_unknown :: "rat tensor dict" where
  "toy_shard_unknown =
     [(''tok_embeddings.weight'', \<lparr>t_shape = [2, 1], t_data = [3, 4]\<rparr>),
      (''foo.bar'', \<lparr>t_shape = [2], t_data = [5, 6]\<rparr>),
      (''output.weight'', \<lparr>t_shape = [1, 2], t_data = [3, 4]\<rparr>)]"

definition toy_shard_field :: "rat tensor dict" where
  "toy_shard_field =
     [(''tok_embeddings.weight'', \<lparr>t_shape = [2, 1], t_data = [3, 4]\<rparr>),
      (''layers.0.foo'', \<lparr>t_shape = [2], t_data = [5, 6]\<rparr>),
      (''output.weight'', \<lparr>t_shape = [1, 2], t_data = [3, 4]\<rparr>)]"

section \<open>Properties\<close>

subsection \<open>The quantizer\<close>

lemma q40_pack_eq: "q40_pack a b = a mod 16 + 16 * (b mod 16)"
proof -
  have "q40_pack a b = concat_bit 4 a (take_bit 4 b)"
    by (simp add: q40_pack_def concat_bit_def take_bit_eq_mask mask_numeral)
  then show ?thesis
    by (simp add: concat_bit_eq take_bit_eq_mod push_bit_eq_mult)
qed

lemma pack_B_q40_pack: "pack_B (q40_pack a b) = Inr [nibbles a b]"
proof -
  have "0 \<le> a mod 16" "a mod 16 < 16" "0 \<le> b mod 16" "b mod 16 < 16"
    by simp_all
  then have "0 \<le> q40_pack a b \<and> q40_pack a b \<le> 255"
    unfolding q40_pack_eq by linarith
  then show ?thesis
    by (simp add: pack_B_def nibbles_def q40_pack_eq)
qed

lemma q40_half_loop_spec:
  "q40_half_loop lib grp sc idxs (buffer, nBytes) =
     (case those (map (spec_byte lib grp sc) idxs) of
        None \<Rightarrow> Inl ConversionError
      | Some bs \<Rightarrow> Inr (buffer @ bs, nBytes + int (length idxs)))"
proof (induction idxs arbitrary: buffer nBytes)
  case Nil
  show ?case by simp
next
  case (Cons i rest)
  show ?case
    by (simp add: Cons.IH spec_byte_def q40_x_def pack_B_q40_pack Let_def
        split: option.splits)
qed

lemma those_length: "those xs = Some ys \<Longrightarrow> length ys = length xs"
  by (induction xs arbitrary: ys) (auto split: option.splits)

lemma spec_group_length: "spec_group lib grp = Some bs \<Longrightarrow> length bs = 18"
  by (auto simp: spec_group_def Let_def le16_def dest!: those_length)

lemma q40_half_loop_group:
  assumes "am = absMax_of lib (np_min lib grp) (np_max lib grp)"
  shows "q40_half_loop lib grp (id_of lib (delta_of lib am)) [0..<16]
           (le16 (half_bits lib (delta_of lib am)), n + 2) =
         (case spec_group lib grp of
            None \<Rightarrow> Inl ConversionError
          | Some bs \<Rightarrow> Inr (bs, n + 18))"
proof -
  let ?inv = "id_of lib (delta_of lib am)"
  have sg: "spec_group lib grp =
      map_option (\<lambda>bs. le16 (half_bits lib (delta_of lib am)) @ bs)
        (those (map (spec_byte lib grp ?inv) [0..<16]))"
    unfolding spec_group_def assms absMax_of_def delta_of_def id_of_def Let_def ..
  show ?thesis
  proof (cases "those (map (spec_byte lib grp ?inv) [0..<16])")
    case None
    then show ?thesis
      unfolding q40_half_loop_spec sg by simp
  next
    case (Some bs)
    then show ?thesis
      unfolding q40_half_loop_spec sg by simp
  qed
qed

lemma q40_group_loop_spec:
  assumes "\<forall>gi \<in> set gis. gi < length groups \<and>
             absMax ! gi = absMax_of lib (np_min lib (groups ! gi)) (np_max lib (groups ! gi))"
  shows "q40_group_loop lib groups absMax gis (fl, nBytes) =
     (case q40_spec lib (map (nth groups) gis) fl of
        Inl ef \<Rightarrow> Inl ef
      | Inr fl' \<Rightarrow> Inr (fl', nBytes + 18 * int (length gis)))"
  using assms
proof (induction gis arbitrary: fl nBytes)
  case Nil
  show ?case by simp
next
  case (Cons gi rest)
  have am: "absMax ! gi = absMax_of lib (np_min lib (groups ! gi)) (np_max lib (groups ! gi))"
    using Cons.prems by simp
  have rest: "\<forall>gi \<in> set rest. gi < length groups \<and>
             absMax ! gi = absMax_of lib (np_min lib (groups ! gi)) (np_max lib (groups ! gi))"
    using Cons.prems by simp
  show ?case
    by (cases "spec_group lib (groups ! gi)")
       (simp_all add: Let_def q40_half_loop_group [OF am] Cons.IH [OF rest] split: sum.splits)
qed

lemma quantizeQ40_refines:
  assumes "length x mod 32 = 0"
  shows "quantizeQ40 lib x fl =
     (case q40_spec lib (reshape_rows 32 x) fl of
        Inl ef \<Rightarrow> Inl ef
      | Inr fl' \<Rightarrow> Inr (fl', 18 * int (length x div 32)))"
proof -
  define groups where "groups = reshape_rows 32 x"
  define absMax where "absMax = map (\<lambda>(mn, mx). absMax_of lib mn mx)
                   (zip (map (np_min lib) groups) (map (np_max lib) groups))"
  have len: "length groups = length x div 32"
    by (simp add: groups_def reshape_rows_def)
  have "\<forall>gi \<in> set [0..<length groups]. gi < length groups \<and>
          absMax ! gi = absMax_of lib (np_min lib (groups ! gi)) (np_max lib (groups ! gi))"
    by (simp add: absMax_def)
  from q40_group_loop_spec [OF this]
  have "q40_group_loop lib groups absMax [0..<length groups] (fl, 0) =
     (case q40_spec lib groups fl of
        Inl ef \<Rightarrow> Inl ef
      | Inr fl' \<Rightarrow> Inr (fl', 18 * int (length groups)))"
    by (simp add: map_nth split: sum.splits)
  then show ?thesis
    using assms by (simp add: quantizeQ40_def Let_def len split: sum.splits flip: groups_def absMax_def)
qed

text \<open>
  Claim C1. For every input of a length that is a multiple of 32, \<open>quantizeQ40\<close> does
  to the file what the specification's group-by-group procedure does: for each
  consecutive group of 32 values, \<open>absMax\<close> is \<open>gmin\<close> when \<open>-gmin > gmax\<close> and \<open>gmax\<close>
  otherwise, \<open>delta = absMax / -8\<close>, the inverse scale is 0 when \<open>delta\<close> is 0 and
  \<open>1 / delta\<close> otherwise, and the group is written as the two bytes of \<open>delta\<close> in half
  precision followed by 16 bytes with \<open>min 15 (int (group[i] * invScale + 8.5))\<close> in the
  low nibble and the same for \<open>group[i + 16]\<close> in the high nibble; the returned count is
  18 bytes per group. Where \<^verbatim>\<open>int\<close> raises (a NaN or an infinity), both stop at the
  same group with the same file.
\<close>

theorem quantizeQ40_groups:
  assumes "length x mod 32 = 0"
  shows "quantizeQ40 lib x fl =
     (case q40_spec lib (reshape_rows 32 x) fl of
        Inl ef \<Rightarrow> Inl ef
      | Inr fl' \<Rightarrow> Inr (fl', 18 * int (length x div 32)))"
  using assms by (rule quantizeQ40_refines)

theorem quantizeQ40_groups_witness:
  "length ramp mod 32 = 0 \<and>
   quantizeQ40 exact_lib ramp file0 =
     Inr (\<lparr>fpos = 18, fwrites = [(0, [192, 193, 91, 90, 90, 74, 73, 57, 57, 56, 40, 40, 39, 23,
                 23, 22, 6, 6])]\<rparr>, 18)"
proof -
  have len: "length ramp mod 32 = 0"
    by (simp add: ramp_def)
  have rows: "reshape_rows 32 ramp = [ramp]"
    by (simp add: reshape_rows_def ramp_def upto.simps)
  have grp: "spec_group exact_lib ramp = Some [192, 193, 91, 90, 90, 74, 73, 57, 57, 56, 40, 40, 39, 23,
                 23, 22, 6, 6]"
   by code_simp
  have "length ramp div 32 = 1"
    by (simp add: ramp_def)
  with quantizeQ40_groups [OF len, of exact_lib file0] len show ?thesis
    by (simp add: rows grp file_write_def file0_def)
qed

lemma exact_scaled_ge_half:
  fixes v mn mx :: rat
  assumes "mn \<le> v" "v \<le> mx"
  shows "1 / 2 \<le> q40_x exact_lib v (id_of exact_lib (delta_of exact_lib (absMax_of exact_lib mn mx)))"
proof -
  define am where "am = (if mx < - mn then mn else mx)"
  have x: "q40_x exact_lib v (id_of exact_lib (delta_of exact_lib (absMax_of exact_lib mn mx)))
        = (if am = 0 then 17 / 2 else 17 / 2 - 8 * (v / am))"
    by (simp add: q40_x_def id_of_def delta_of_def absMax_of_def exact_lib_def am_def)
  have "v / am \<le> 1" if "am \<noteq> 0"
  proof (cases "mx < - mn")
    case True
    then have "am = mn" "mn < 0" using assms by (auto simp: am_def)
    then show ?thesis using assms by (simp add: divide_le_eq)
  next
    case False
    then have "am = mx" "0 < mx" using assms that by (auto simp: am_def)
    then show ?thesis using assms by (simp add: divide_le_eq)
  qed
  then show ?thesis
    unfolding x by auto
qed

lemma exact_np_min:
  assumes "grp \<noteq> []"
  shows "np_min exact_lib grp = Min (set grp)"
proof -
  from assms obtain a rest where grp: "grp = a # rest"
    by (cases grp) auto
  have "np_min exact_lib (a # rest) = fold min rest a"
    by (simp add: exact_lib_def)
  also have "\<dots> = Min (set (a # rest))"
    by (rule Min.set_eq_fold [symmetric])
  finally show ?thesis
    by (simp only: grp)
qed

lemma exact_np_max:
  assumes "grp \<noteq> []"
  shows "np_max exact_lib grp = Max (set grp)"
proof -
  from assms obtain a rest where grp: "grp = a # rest"
    by (cases grp) auto
  have "np_max exact_lib (a # rest) = fold max rest a"
    by (simp add: exact_lib_def)
  also have "\<dots> = Max (set (a # rest))"
    by (rule Max.set_eq_fold [symmetric])
  finally show ?thesis
    by (simp only: grp)
qed

lemma exact_group_scaled_ge_half:
  assumes "i < length grp"
  shows "1 / 2 \<le> q40_x exact_lib (grp ! i) (group_scale exact_lib grp)"
proof -
  have ne: "grp \<noteq> []" using assms by auto
  have "Min (set grp) \<le> grp ! i" "grp ! i \<le> Max (set grp)"
    using assms by simp_all
  then show ?thesis
    unfolding group_scale_def exact_np_min [OF ne] exact_np_max [OF ne]
    by (rule exact_scaled_ge_half)
qed

lemma py_trunc_nonneg: "0 \<le> r \<Longrightarrow> 0 \<le> py_trunc r"
  by (simp add: py_trunc_def)

text \<open>
  In the instance without rounding the scaled value of every element of every group is
  at least \<open>1 / 2\<close>: it is \<open>8.5 - 8 * v / absMax\<close>, and \<open>absMax\<close> is the extreme of
  larger magnitude. This is a fact of exact arithmetic only; what numpy computes for a
  group depends on the rounding, the overflow and the width of each operation.
\<close>

lemma exact_index_nonneg:
  assumes "i < length grp"
  shows "\<exists>t. f_int exact_lib (q40_x exact_lib (grp ! i) (group_scale exact_lib grp)) = Some t
           \<and> 0 \<le> t"
proof -
  from exact_group_scaled_ge_half [OF assms]
  have "0 \<le> py_trunc (q40_x exact_lib (grp ! i) (group_scale exact_lib grp))"
    by (intro py_trunc_nonneg) simp
  then show ?thesis
    by (simp add: exact_lib_def)
qed

lemma q40_half_loop_nth:
  assumes "q40_half_loop lib grp sc idxs (buffer, n) = Inr (buffer', n')" and "j < length idxs"
  shows "\<exists>t0 t1. f_int lib (q40_x lib (grp ! (idxs ! j)) sc) = Some t0
           \<and> f_int lib (q40_x lib (grp ! (idxs ! j + 16)) sc) = Some t1
           \<and> buffer' ! (length buffer + j) = nibbles (min 15 t0) (min 15 t1)"
  using assms
proof (induction idxs arbitrary: buffer n j)
  case Nil
  then show ?case by simp
next
  case (Cons i rest)
  from Cons.prems(1) obtain t0 t1 where
    t0: "f_int lib (q40_x lib (grp ! i) sc) = Some t0" and
    t1: "f_int lib (q40_x lib (grp ! (i + 16)) sc) = Some t1" and
    rec: "q40_half_loop lib grp sc rest (buffer @ [nibbles (min 15 t0) (min 15 t1)], n + 1)
            = Inr (buffer', n')"
    by (auto simp: Let_def pack_B_q40_pack split: option.splits)
  show ?case
  proof (cases j)
    case 0
    from rec have "buffer' ! length buffer = nibbles (min 15 t0) (min 15 t1)"
      by (auto simp: q40_half_loop_spec nth_append split: option.splits)
    with 0 t0 t1 show ?thesis by simp
  next
    case (Suc j')
    with Cons.prems(2) have "j' < length rest" by simp
    from Cons.IH [OF rec this] Suc show ?thesis by simp
  qed
qed

lemma uint_nibbles:
  "uint (nibbles lo hi) mod 16 = lo mod 16" "uint (nibbles lo hi) div 16 = hi mod 16"
proof -
  have "0 \<le> lo mod 16" "lo mod 16 < 16" "0 \<le> hi mod 16" "hi mod 16 < 16"
    by simp_all
  then have r: "0 \<le> lo mod 16 + 16 * (hi mod 16)" "lo mod 16 + 16 * (hi mod 16) < 256"
    by linarith+
  have u: "uint (nibbles lo hi) = lo mod 16 + 16 * (hi mod 16)"
    unfolding nibbles_def uint_word_of_int_eq using r by (simp add: take_bit_int_eq_self)
  show "uint (nibbles lo hi) mod 16 = lo mod 16" "uint (nibbles lo hi) div 16 = hi mod 16"
    unfolding u by simp_all
qed

text \<open>
  Whatever the float operations are, when the inner loop of the quantizer returns, byte
  \<open>i\<close> of what it appended holds \<open>min 15 t0 mod 16\<close> in its low nibble and
  \<open>min 15 t1 mod 16\<close> in its high nibble, where \<open>t0\<close> and \<open>t1\<close> are the truncated
  scaled values of elements \<open>i\<close> and \<open>i + 16\<close>: the mask keeps the low four bits of the
  two's complement of an index, and every nibble lies in 0..15.
\<close>

lemma q40_nibbles_mask:
  assumes "q40_half_loop lib grp sc [0..<16] (buffer, n) = Inr (buffer', n')" and "i < 16"
  shows "\<exists>t0 t1 b. f_int lib (q40_x lib (grp ! i) sc) = Some t0
           \<and> f_int lib (q40_x lib (grp ! (i + 16)) sc) = Some t1
           \<and> b = uint (buffer' ! (length buffer + i))
           \<and> b mod 16 = min 15 t0 mod 16 \<and> b div 16 = min 15 t1 mod 16
           \<and> 0 \<le> b mod 16 \<and> b mod 16 \<le> 15 \<and> 0 \<le> b div 16 \<and> b div 16 \<le> 15"
proof -
  from q40_half_loop_nth [OF assms(1), of i] assms(2)
  obtain t0 t1 where
    t0: "f_int lib (q40_x lib (grp ! i) sc) = Some t0" and
    t1: "f_int lib (q40_x lib (grp ! (i + 16)) sc) = Some t1" and
    b: "buffer' ! (length buffer + i) = nibbles (min 15 t0) (min 15 t1)"
    by auto
  have m0: "0 \<le> min 15 t0 mod 16" "min 15 t0 mod 16 \<le> 15"
   and m1: "0 \<le> min 15 t1 mod 16" "min 15 t1 mod 16 \<le> 15"
    by simp_all
  with t0 t1 b show ?thesis
    by (simp add: uint_nibbles)
qed

subsection \<open>Sizes\<close>

lemma written_file_write: "written (file_write f bs) = written f + length bs"
  by (simp add: written_def file_write_def)



lemma q40_spec_written:
  "q40_spec lib gs fl = Inr fl' \<Longrightarrow> written fl' = written fl + 18 * length gs"
proof (induction gs arbitrary: fl)
  case Nil
  then show ?case by simp
next
  case (Cons g gs)
  then show ?case
    by (auto simp: written_file_write spec_group_length split: option.splits)
qed

lemma q40_spec_error: "q40_spec lib gs fl = Inl (e, f) \<Longrightarrow> e = ConversionError"
  by (induction gs arbitrary: fl) (auto split: option.splits)




lemma quantizeQ40_count:
  assumes "length x mod 32 = 0"
  shows "case quantizeQ40 lib x fl of
           Inr (fl', r) \<Rightarrow> r = 18 * int (length x div 32)
                            \<and> int (written fl') = int (written fl) + r
         | Inl (e, fl') \<Rightarrow> e = ConversionError"
proof (cases "q40_spec lib (reshape_rows 32 x) fl")
  case (Inl ef)
  obtain e f where ef: "ef = (e, f)"
    by (cases ef)
  with Inl q40_spec_error [of lib "reshape_rows 32 x" fl e f] show ?thesis
    by (simp add: quantizeQ40_refines [OF assms])
next
  case (Inr fl')
  have "length (reshape_rows 32 x) = length x div 32"
    by (simp add: reshape_rows_def)
  with q40_spec_written [OF Inr] Inr show ?thesis
    by (simp add: quantizeQ40_refines [OF assms])
qed


lemma py_trunc_of_int: "py_trunc (of_int k) = k"
  by (simp add: py_trunc_def)

lemma getBytes_of_int:
  "getBytes (PInt n) ''float32'' = Inr (4 * n)"
  "getBytes (PInt n) ''float16'' = Inr (2 * n)"
  "getBytes (PInt n) ''q40'' = Inr ((n div 32) * 18)"
  by (simp_all add: getBytes_def py_mul_def py_int_def py_floordiv_def ebind_def mult.commute)

text \<open>
  Claim C3, as amended. For every element count \<open>n\<close>, \<open>getBytes\<close> returns \<open>4 * n\<close> for
  float32, \<open>2 * n\<close> for float16 and \<open>(n div 32) * 18\<close> for q40, with floor division. It
  returns for every \<open>n\<close>: it does not check that \<open>n\<close> is a multiple of 32 (the check is
  the assertion of \<open>quantizeQ40\<close>, made when a tensor is encoded).
\<close>

theorem getBytes_sizes:
  "getBytes (PInt n) ''float32'' = Inr (4 * n)
   \<and> getBytes (PInt n) ''float16'' = Inr (2 * n)
   \<and> getBytes (PInt n) ''q40'' = Inr ((n div 32) * 18)"
  by (simp add: getBytes_of_int)

text \<open>For 33 elements and q40 the size is 18 bytes, and no error.\<close>

theorem getBytes_q40_counterexample:
  "(33 :: int) mod 32 \<noteq> 0 \<and> getBytes (PInt 33) ''q40'' = Inr 18"
  by code_simp



subsection \<open>The merge\<close>

lemma map_of_dict_set: "map_of (dict_set d k v) k' = (if k' = k then Some v else map_of d k')"
  by (induction d) auto
















subsection \<open>The header\<close>

lemma dict_set_twice: "dict_set (dict_set d k a) k b = dict_set d k b"
  by (induction d) auto

lemma dict_set_commute:
  "map_of e k \<noteq> None \<Longrightarrow> k \<noteq> k1 \<Longrightarrow>
     dict_set (dict_set e k1 a) k c = dict_set (dict_set e k c) k1 a"
  by (induction e) (auto simp: dict_set_twice)

lemma dict_set_mask:
  assumes "k \<noteq> k1" "k \<noteq> k2"
  shows "dict_set (dict_set (dict_set (dict_set d k v) k1 a) k2 b) k c
     = dict_set (dict_set (dict_set d k c) k1 a) k2 b"
proof -
  have "dict_set (dict_set (dict_set (dict_set d k v) k1 a) k2 b) k c
      = dict_set (dict_set (dict_set (dict_set d k v) k1 a) k c) k2 b"
    using assms by (intro dict_set_commute) (simp_all add: map_of_dict_set)
  also have "dict_set (dict_set (dict_set d k v) k1 a) k c
      = dict_set (dict_set (dict_set d k v) k c) k1 a"
    using assms by (intro dict_set_commute) (simp_all add: map_of_dict_set)
  finally show ?thesis
    by (simp add: dict_set_twice)
qed

lemma dict_item_dict_set:
  "dict_item (dict_set d k v) k' = (if k' = k then Inr v else dict_item d k')"
  by (simp add: dict_item_def map_of_dict_set)

lemma load_params_max_seq_len:
  "load_params (dict_set p ''max_seq_len'' v) = load_params (dict_set p ''max_seq_len'' w)"
  unfolding load_params_def ebind_def Let_def
  by (auto simp: dict_item_dict_set map_of_dict_set dict_set_mask
      split: sum.splits option.splits)

lemma load_params_2048:
  "load_params p0 = Inr params \<Longrightarrow> dict_item params ''max_seq_len'' = Inr (PInt 2048)"
  unfolding load_params_def ebind_def Let_def
  by (auto simp: dict_item_dict_set split: sum.splits option.splits if_splits)

lemma load_params_head_size:
  "load_params p0 = Inr params \<Longrightarrow>
     \<exists>dim n_heads head_size. dict_item p0 ''dim'' = Inr dim \<and> dict_item p0 ''n_heads'' = Inr n_heads
        \<and> py_truediv dim n_heads = Inr head_size
        \<and> dict_item params ''head_size'' = Inr head_size"
  unfolding load_params_def ebind_def Let_def
  by (auto simp: dict_item_dict_set split: sum.splits option.splits if_splits)

lemma mapM_nth:
  "mapM f xs = Inr ys \<Longrightarrow> length ys = length xs \<and> (\<forall>i < length xs. f (xs ! i) = Inr (ys ! i))"
proof (induction xs arbitrary: ys)
  case Nil
  then show ?case by simp
next
  case (Cons x xs)
  from Cons.prems obtain y rest where
    y: "f x = Inr y" and rest: "mapM f xs = Inr rest" and ys: "ys = y # rest"
    by (auto split: sum.splits)
  from Cons.IH [OF rest] y ys show ?case
    by (auto simp: nth_Cons split: nat.splits)
qed

lemma pack_i_length: "pack_i v = Inr bs \<Longrightarrow> length bs = 4"
  by (auto simp: pack_i_def le32_def split: if_splits pyval.splits)

lemma concat_chunk:
  "(\<forall>b \<in> set bss. length b = n) \<Longrightarrow> i < length bss \<Longrightarrow>
     take n (drop (i * n) (concat bss)) = bss ! i"
proof (induction bss arbitrary: i)
  case Nil
  then show ?case by simp
next
  case (Cons b bss)
  show ?case
  proof (cases i)
    case 0
    with Cons.prems show ?thesis by simp
  next
    case (Suc j)
    with Cons.prems Cons.IH [of j] show ?thesis by simp
  qed
qed

lemma length_concat_uniform:
  "(\<forall>b \<in> set bss. length b = n) \<Longrightarrow> length (concat bss) = n * length bss"
  by (induction bss) simp_all

lemma writeHeader_log:
  assumes "writeHeader f p = Inr (f', hdr)"
  shows "\<exists>vs header. mapM (dict_item p) header_keys = Inr vs
           \<and> fwrites f' = fwrites f @ [(fpos f, header)]
           \<and> fpos f' = fpos f + 28 \<and> hdr = 28 \<and> length header = 28
           \<and> (\<forall>i < 7. pack_i (vs ! i) = Inr (take 4 (drop (i * 4) header)))"
proof -
  from assms obtain vs bss where
    vs: "mapM (dict_item p) header_keys = Inr vs" and
    bss: "mapM pack_i vs = Inr bss" and
    f': "f' = file_write f (concat bss)" and hdr: "hdr = int (length (concat bss))"
    by (auto simp: writeHeader_def Let_def split: sum.splits)
  from mapM_nth [OF vs] have lvs: "length vs = 7"
    by (simp add: header_keys_def)
  from mapM_nth [OF bss] lvs have lbss: "length bss = 7"
    and each: "\<forall>i < 7. pack_i (vs ! i) = Inr (bss ! i)"
    by simp_all
  have four: "\<forall>b \<in> set bss. length b = 4"
  proof
    fix b assume "b \<in> set bss"
    then obtain i where "i < 7" "b = bss ! i"
      using lbss by (auto simp: in_set_conv_nth)
    with each show "length b = 4"
      by (auto dest: pack_i_length)
  qed
  have len: "length (concat bss) = 28"
    using length_concat_uniform [OF four] lbss by simp
  have "\<forall>i < 7. pack_i (vs ! i) = Inr (take 4 (drop (i * 4) (concat bss)))"
    using each concat_chunk [OF four] lbss by simp
  with vs f' hdr len show ?thesis
    by (auto simp: file_write_def)
qed

subsection \<open>The tensor loop\<close>

lemma fwrites_file_seek: "file_seek f off = Inr f' \<Longrightarrow> fwrites f' = fwrites f \<and> fpos f' = nat off \<and> 0 \<le> off"
  by (auto simp: file_seek_def split: if_splits)

lemma written_file_seek: "file_seek f off = Inr f' \<Longrightarrow> written f' = written f"
  by (auto simp: file_seek_def written_def split: if_splits)

lemma exportTensor_written:
  assumes "exportTensor lib f t ty = Inr (f', r)"
  shows "int (written f') = int (written f) + r \<and> 0 \<le> r"
proof -
  consider "ty = ''float16''" | "ty = ''float32''"
    | "ty = ''q40''" "length (map (to_f32 lib) (t_data t)) mod 32 = 0"
    using assms by (auto simp: exportTensor_def quantizeQ40_def Let_def split: if_splits)
  then show ?thesis
  proof cases
    case 1
    with assms show ?thesis
      by (auto simp: exportTensor_def Let_def written_file_write)
  next
    case 2
    with assms show ?thesis
      by (auto simp: exportTensor_def Let_def written_file_write)
  next
    case 3
    from quantizeQ40_count [OF 3(2), where lib = lib and fl = f] assms 3(1) show ?thesis
      by (auto simp: exportTensor_def Let_def)
  qed
qed

lemma seek_export_written:
  assumes "seek_export lib f off t ty p = Inr (f', pb)"
  shows "\<exists>n. 0 \<le> n \<and> pb = p + n \<and> int (written f') = int (written f) + n"
proof -
  from assms obtain f1 r where
    s: "file_seek f off = Inr f1" and e: "exportTensor lib f1 t ty = Inr (f', r)" and pb: "pb = p + r"
    by (auto simp: seek_export_def split: sum.splits)
  from exportTensor_written [OF e] written_file_seek [OF s] pb show ?thesis
    by auto
qed

lemma q40_spec_log:
  "q40_spec lib gs fl = Inr fl' \<Longrightarrow>
     \<exists>chunks. those (map (spec_group lib) gs) = Some chunks
        \<and> fwrites fl' = fwrites fl @ writes_at (fpos fl) chunks"
proof (induction gs arbitrary: fl)
  case Nil
  then show ?case by simp
next
  case (Cons g gs)
  from Cons.prems obtain bs where
    bs: "spec_group lib g = Some bs" and rec: "q40_spec lib gs (file_write fl bs) = Inr fl'"
    by (auto split: option.splits)
  from Cons.IH [OF rec] obtain chunks where
    "those (map (spec_group lib) gs) = Some chunks"
    "fwrites fl' = fwrites (file_write fl bs) @ writes_at (fpos (file_write fl bs)) chunks"
    by blast
  with bs show ?case
    by (simp add: file_write_def)
qed

lemma exportTensor_log:
  assumes "exportTensor lib f t ty = Inr (f', r)"
  shows "\<exists>chunks. encoded lib t ty = Some chunks \<and> fwrites f' = fwrites f @ writes_at (fpos f) chunks"
proof -
  consider "ty = ''float16''" | "ty = ''float32''"
    | "ty = ''q40''" "length (map (to_f32 lib) (t_data t)) mod 32 = 0"
    using assms by (auto simp: exportTensor_def quantizeQ40_def Let_def split: if_splits)
  then show ?thesis
  proof cases
    case 1
    with assms show ?thesis
      by (auto simp: exportTensor_def Let_def encoded_def file_write_def)
  next
    case 2
    with assms show ?thesis
      by (auto simp: exportTensor_def Let_def encoded_def file_write_def)
  next
    case 3
    from assms 3 obtain fl' where "q40_spec lib (reshape_rows 32 (map (to_f32 lib) (t_data t))) f = Inr fl'"
      and "f' = fl'"
      by (auto simp: exportTensor_def Let_def quantizeQ40_refines [OF 3(2)] split: sum.splits)
    with q40_spec_log [of lib _ f fl'] 3 show ?thesis
      by (auto simp: encoded_def)
  qed
qed

lemma seek_export_log:
  assumes "seek_export lib f off t ty p = Inr (f', pb)"
  shows "0 \<le> off \<and> (\<exists>chunks. encoded lib t ty = Some chunks
            \<and> fwrites f' = fwrites f @ writes_at (nat off) chunks)"
proof -
  from assms obtain f1 r where
    s: "file_seek f off = Inr f1" and e: "exportTensor lib f1 t ty = Inr (f', r)"
    by (auto simp: seek_export_def split: sum.splits)
  from exportTensor_log [OF e] fwrites_file_seek [OF s] show ?thesis
    by auto
qed

lemma length_split_dot: "length (split_dot n s) \<le> Suc n"
  by (induction n arbitrary: s) auto

lemma rope_parts: "split_dot 2 ''rope.freqs'' = [''rope'', ''freqs'']"
  by code_simp

lemma tensor_branch_cases:
  assumes "tensor_branch lib targetFloatType sz lay st layerName tensor p = Inr (f, ls, pb)"
  shows "(layerName = ''rope.freqs'' \<and> f = st_file st \<and> ls = st_layerSize st \<and> pb = - 1)
         \<or> (layerName \<noteq> ''rope.freqs''
             \<and> (\<exists>expected n. expected_size sz lay layerName = Some expected \<and> ls = Some expected
                   \<and> 0 \<le> n \<and> pb = p + n
                   \<and> int (written f) = int (written (st_file st)) + n))"
proof (cases "split_dot 2 layerName ! 0 = ''layers''")
  case True
  then have nr: "layerName \<noteq> ''rope.freqs''"
    using rope_parts by auto
  from assms True obtain layerSize off ty where
    l1: "1 < length (split_dot 2 layerName)" "2 < length (split_dot 2 layerName)" and
    ls: "dict_item (blockOffsets lay) (split_dot 2 layerName ! 2) = Inr layerSize" "ls = Some layerSize" and
    se: "seek_export lib (st_file st) off tensor ty p = Inr (f, pb)"
    by (auto simp: tensor_branch_def Let_def ebind_def list_item_def split: sum.splits if_splits)
  from l1 length_split_dot [of 2 layerName] have "length (split_dot 2 layerName) = 3"
    by simp
  with ls True have "expected_size sz lay layerName = Some layerSize"
    by (auto simp: expected_size_def Let_def dict_item_def split: option.splits)
  with seek_export_written [OF se] ls nr show ?thesis
    by auto
next
  case False
  show ?thesis
  proof (cases "layerName = ''rope.freqs''")
    case True
    with assms False show ?thesis
      by (auto simp: tensor_branch_def Let_def)
  next
    case nr: False
    from assms False nr obtain off ty expected where
      se: "seek_export lib (st_file st) off tensor ty p = Inr (f, pb)" and
      ex: "expected_size sz lay layerName = Some expected" "ls = Some expected"
      by (auto simp: tensor_branch_def expected_size_def Let_def split: sum.splits if_splits)
    with seek_export_written [OF se] nr show ?thesis
      by auto
  qed
qed

lemma processed_of_dict_set:
  "processed_of \<lparr>st_file = f, st_layerSize = ls, st_processed = dict_set d k v\<rparr> k' =
     (if k' = k then v else (case map_of d k' of None \<Rightarrow> 0 | Some v \<Rightarrow> v))"
  by (simp add: processed_of_def map_of_dict_set)

lemma unknown_fails:
  assumes "split_dot 2 name ! 0 \<noteq> ''layers''"
      and "name \<notin> {''tok_embeddings.weight'', ''norm.weight'', ''rope.freqs'', ''output.weight''}"
      and "processed_of st name \<noteq> - 1"
  shows "convert_tensor lib targetFloatType sz lay st name tensor
           = Inl (UnknownLayer name, st_file st)"
  using assms by (simp add: convert_tensor_def tensor_branch_def Let_def)

lemma convert_tensor_frame:
  assumes "convert_tensor lib targetFloatType sz lay st layerName tensor = Inr st'"
      and "other \<noteq> layerName"
  shows "processed_of st' other = processed_of st other"
proof (cases "processed_of st layerName = - 1")
  case True
  with assms show ?thesis
    by (simp add: convert_tensor_def)
next
  case False
  with assms show ?thesis
    by (auto simp: convert_tensor_def Let_def processed_of_def map_of_dict_set
        split: sum.splits option.splits)
qed

lemma convert_tensors_append:
  "convert_tensors lib targetFloatType sz lay (pre @ rest) st =
     (case convert_tensors lib targetFloatType sz lay pre st of
        Inl ef \<Rightarrow> Inl ef
      | Inr st1 \<Rightarrow> convert_tensors lib targetFloatType sz lay rest st1)"
proof (induction pre arbitrary: st)
  case Nil
  show ?case by simp
next
  case (Cons nt pre)
  obtain n t where nt: "nt = (n, t)"
    by (cases nt)
  show ?case
    by (cases "convert_tensor lib targetFloatType sz lay st n t") (simp_all add: nt Cons.IH)
qed

subsection \<open>The block offset table\<close>

lemma offsets_loop_nine:
  "offsets_loop [''attention_norm.weight'', ''ffn_norm.weight'', ''attention.wq.weight'',
                 ''attention.wk.weight'', ''attention.wv.weight'', ''attention.wo.weight'',
                 ''feed_forward.w1.weight'', ''feed_forward.w2.weight'', ''feed_forward.w3.weight'']
     ([(''attention_norm.weight'', rms), (''ffn_norm.weight'', ffn),
       (''attention.wq.weight'', q), (''attention.wk.weight'', k),
       (''attention.wv.weight'', v), (''attention.wo.weight'', wo),
       (''feed_forward.w1.weight'', w1), (''feed_forward.w2.weight'', w2),
       (''feed_forward.w3.weight'', w3)], 0)
   = Inr ([(''attention_norm.weight'', rms), (''ffn_norm.weight'', ffn),
       (''attention.wq.weight'', q), (''attention.wk.weight'', k),
       (''attention.wv.weight'', v), (''attention.wo.weight'', wo),
       (''feed_forward.w1.weight'', w1), (''feed_forward.w2.weight'', w2),
       (''feed_forward.w3.weight'', w3),
       (''attention_norm.weight_offset'', 0),
       (''ffn_norm.weight_offset'', rms),
       (''attention.wq.weight_offset'', rms + ffn),
       (''attention.wk.weight_offset'', rms + ffn + q),
       (''attention.wv.weight_offset'', rms + ffn + q + k),
       (''attention.wo.weight_offset'', rms + ffn + q + k + v),
       (''feed_forward.w1.weight_offset'', rms + ffn + q + k + v + wo),
       (''feed_forward.w2.weight_offset'', rms + ffn + q + k + v + wo + w1),
       (''feed_forward.w3.weight_offset'', rms + ffn + q + k + v + wo + w1 + w2)],
      rms + ffn + q + k + v + wo + w1 + w2 + w3)"
  by (simp add: dict_item_def)

text \<open>
  The table that \<open>getBlockOffsets\<close> returns: the two norm fields have the float32 size
  of \<open>dim\<close> elements whatever the target encoding is, the other seven have the size of
  their element count in the target encoding, each offset is the sum of the sizes of
  the fields before it, and \<^verbatim>\<open>_total\<close> is the sum of all nine.
\<close>

lemma getBlockOffsets_table:
  assumes "getBlockOffsets params targetFloatType = Inr bo"
  shows "\<exists>dim n_kv_heads n_heads hidden_dim dim_kv kvDim rms q k w1 w2.
           dict_item params ''dim'' = Inr dim
           \<and> dict_item params ''n_kv_heads'' = Inr n_kv_heads
           \<and> dict_item params ''n_heads'' = Inr n_heads
           \<and> dict_item params ''hidden_dim'' = Inr hidden_dim
           \<and> py_mul dim n_kv_heads = Inr dim_kv
           \<and> py_truediv dim_kv n_heads = Inr kvDim
           \<and> getBytes dim ''float32'' = Inr rms
           \<and> product_bytes dim dim targetFloatType = Inr q
           \<and> product_bytes dim kvDim targetFloatType = Inr k
           \<and> product_bytes dim hidden_dim targetFloatType = Inr w1
           \<and> product_bytes hidden_dim dim targetFloatType = Inr w2
           \<and> bo = [(''attention_norm.weight'', rms), (''ffn_norm.weight'', rms),
                   (''attention.wq.weight'', q), (''attention.wk.weight'', k),
                   (''attention.wv.weight'', k), (''attention.wo.weight'', q),
                   (''feed_forward.w1.weight'', w1), (''feed_forward.w2.weight'', w2),
                   (''feed_forward.w3.weight'', w1),
                   (''attention_norm.weight_offset'', 0),
                   (''ffn_norm.weight_offset'', rms),
                   (''attention.wq.weight_offset'', rms + rms),
                   (''attention.wk.weight_offset'', rms + rms + q),
                   (''attention.wv.weight_offset'', rms + rms + q + k),
                   (''attention.wo.weight_offset'', rms + rms + q + k + k),
                   (''feed_forward.w1.weight_offset'', rms + rms + q + k + k + q),
                   (''feed_forward.w2.weight_offset'', rms + rms + q + k + k + q + w1),
                   (''feed_forward.w3.weight_offset'', rms + rms + q + k + k + q + w1 + w2),
                   (''_total'', rms + rms + q + k + k + q + w1 + w2 + w1)]"
proof -
  from assms obtain dim n_kv_heads dim_kv n_heads kvDim where
    p1: "dict_item params ''dim'' = Inr dim" "dict_item params ''n_kv_heads'' = Inr n_kv_heads"
        "py_mul dim n_kv_heads = Inr dim_kv"
        "dict_item params ''n_heads'' = Inr n_heads" "py_truediv dim_kv n_heads = Inr kvDim"
    by (auto simp: getBlockOffsets_def ebind_def split: sum.splits)
  from assms p1 obtain rms q k where
    g1: "getBytes dim ''float32'' = Inr rms" "product_bytes dim dim targetFloatType = Inr q"
        "product_bytes dim kvDim targetFloatType = Inr k"
    by (auto simp: getBlockOffsets_def ebind_def split: sum.splits)
  from assms p1 g1 obtain hidden_dim where
    p2: "dict_item params ''hidden_dim'' = Inr hidden_dim"
    by (auto simp: getBlockOffsets_def ebind_def split: sum.splits)
  from assms p1 g1 p2 obtain w1 w2 where
    g2: "product_bytes dim hidden_dim targetFloatType = Inr w1"
        "product_bytes hidden_dim dim targetFloatType = Inr w2"
    by (auto simp: getBlockOffsets_def ebind_def split: sum.splits)
  from assms p1 g1 p2 g2
  have "bo = [(''attention_norm.weight'', rms), (''ffn_norm.weight'', rms),
                   (''attention.wq.weight'', q), (''attention.wk.weight'', k),
                   (''attention.wv.weight'', k), (''attention.wo.weight'', q),
                   (''feed_forward.w1.weight'', w1), (''feed_forward.w2.weight'', w2),
                   (''feed_forward.w3.weight'', w1),
                   (''attention_norm.weight_offset'', 0),
                   (''ffn_norm.weight_offset'', rms),
                   (''attention.wq.weight_offset'', rms + rms),
                   (''attention.wk.weight_offset'', rms + rms + q),
                   (''attention.wv.weight_offset'', rms + rms + q + k),
                   (''attention.wo.weight_offset'', rms + rms + q + k + k),
                   (''feed_forward.w1.weight_offset'', rms + rms + q + k + k + q),
                   (''feed_forward.w2.weight_offset'', rms + rms + q + k + k + q + w1),
                   (''feed_forward.w3.weight_offset'', rms + rms + q + k + k + q + w1 + w2),
                   (''_total'', rms + rms + q + k + k + q + w1 + w2 + w1)]"
    unfolding getBlockOffsets_def ebind_def Let_def dict_keys_def
    by (simp add: offsets_loop_nine del: offsets_loop.simps)
  with p1 g1 p2 g2 show ?thesis
    by blast
qed
end
